theory Spec2Isabelle
  imports Complex_Main
begin

section \<open>Real-time cauldron monitoring: data model\<close>

text \<open>
  The development embeds the monitoring core of the repository
  (\<^verbatim>\<open>utils/realtimeMonitoring.ts\<close>): fill-rate estimation, drain detection, ticket
  matching, discrepancy assessment and the per-tick orchestrator \<^verbatim>\<open>monitorRealTime\<close>.

  Conventions of the embedding.
  \<^item> A JavaScript \<^verbatim>\<open>number\<close> that holds a volume, a rate or a duration is a \<^typ>\<open>real\<close>:
    the arithmetic is the exact one, rounding of IEEE doubles and the values NaN and
    Infinity are not represented.  On such a number \<^verbatim>\<open>x || 0\<close> is \<open>x\<close>.
  \<^item> A \<^verbatim>\<open>Date\<close>, and a date string that is handed to \<^verbatim>\<open>new Date(..)\<close>, is the
    \<^typ>\<open>int\<close> that \<^verbatim>\<open>getTime()\<close> returns: milliseconds since the epoch.  A ticket
    date that does not parse is the subject of the section on ticket dates that do not
    parse; elsewhere every date parses.
  \<^item> \<^verbatim>\<open>toISOString().split('T')[0]\<close> is the UTC calendar day; it is represented by the
    number of the day, \<open>ms div 86400000\<close>, which determines the text and is determined
    by it.
  \<^item> \<^verbatim>\<open>string | null\<close> is a \<^typ>\<open>string option\<close>; a nullable date string is an
    \<^typ>\<open>int option\<close>, where \<open>None\<close> stands for \<^verbatim>\<open>null\<close> and for the empty string, the two
    values that \<^verbatim>\<open>!t.date\<close> rejects.
  \<^item> A \<^verbatim>\<open>Map\<close> is a partial function, a \<^verbatim>\<open>Set\<close> a set.
  \<^item> The free text of an alert (\<^verbatim>\<open>message\<close>, and the \<^verbatim>\<open>reason\<close> and \<^verbatim>\<open>action\<close> entries of
    \<^verbatim>\<open>details\<close>), which is rendered with \<^verbatim>\<open>toFixed\<close>, is left out; every other field of an
    alert is kept.
\<close>

type_synonym timestamp = int

record CauldronDto =
  cauldron_id_of :: "string option"
  cauldron_name :: "string option"
  max_volume :: real

record HistoricalDataDto =
  h_timestamp :: timestamp
  cauldron_levels :: "string \<rightharpoonup> real"

record TicketDto =
  ticket_id :: "string option"
  cauldron_id :: "string option"
  amount_collected :: real
  courier_id :: "string option"
  date :: "timestamp option"

record CourierDto =
  c_courier_id :: "string option"
  c_name :: "string option"

record EdgeDto =
  e_from :: "string option"
  e_to :: "string option"
  travel_time_minutes :: real

record NetworkDto =
  edges :: "EdgeDto list option"

datatype severity = Info | Warning | Critical

datatype jsval = Num real | Str string | Null

record Alert =
  alert_id :: string
  alert_type :: string
  alert_severity :: severity
  alert_cauldronId :: "string option"
  alert_cauldronName :: "string option"
  alert_timestamp :: timestamp
  details :: "(string \<times> jsval) list"

record DrainEvent =
  cauldronId :: string
  timestamp :: timestamp
  levelBefore :: real
  levelAfter :: real
  expectedDrainVolume :: real
  duration :: real
  refillRate :: "real option"
  isActive :: bool

text \<open>
  The drain events are objects that the source shares between \<^verbatim>\<open>drainEvents\<close> and
  \<^verbatim>\<open>activeDrains\<close>: a new drain is stored in both, and the orchestrator mutates the
  object it reads from \<^verbatim>\<open>activeDrains\<close>.  Objects are only ever appended to
  \<^verbatim>\<open>drainEvents\<close>, so the list is the store and a reference is a position in it.
  The field \<^verbatim>\<open>courierPositions\<close>, which the orchestrator only copies, is left out.
\<close>

record MonitoringState =
  fillRates :: "string \<rightharpoonup> real"
  baselineFillRates :: "string \<rightharpoonup> real"
  lastLevels :: "string \<rightharpoonup> real"
  drainEvents :: "DrainEvent list"
  dailyDrains :: "string \<rightharpoonup> (int \<rightharpoonup> real)"
  dailyTickets :: "string \<rightharpoonup> (int \<rightharpoonup> TicketDto list)"
  discrepancyCounts :: "string \<rightharpoonup> nat"
  overflowForecasts :: "string \<rightharpoonup> real"
  activeDrains :: "string \<rightharpoonup> nat"
  lastStableTime :: "string \<rightharpoonup> timestamp"
  acknowledgedAlerts :: "string set"
  criticalLevelAlerts :: "string set"

definition TOLERANCE :: real where
  "TOLERANCE = 2"

definition DRAIN_STABILIZATION_TIME :: real where
  "DRAIN_STABILIZATION_TIME = 5"

definition PRODUCTION_STOP_THRESHOLD :: real where
  "PRODUCTION_STOP_THRESHOLD = 1 / 10"

definition PRODUCTION_STOP_DURATION :: real where
  "PRODUCTION_STOP_DURATION = 30"

subsection \<open>Small JavaScript idioms\<close>

text \<open>\<^verbatim>\<open>!s\<close> on a \<^verbatim>\<open>string | null\<close>: null and the empty string are falsy.\<close>

definition truthy :: "string option \<Rightarrow> bool" where
  "truthy s = (case s of None \<Rightarrow> False | Some v \<Rightarrow> v \<noteq> [])"

text \<open>\<^verbatim>\<open>m.get(k) || d\<close> on a map of numbers: a missing key and the number 0 give \<open>d\<close>.\<close>

definition get_or :: "real option \<Rightarrow> real \<Rightarrow> real" where
  "get_or v d = (case v of None \<Rightarrow> d | Some x \<Rightarrow> if x = 0 then d else x)"

text \<open>The UTC day of an instant, and the absolute value of a difference of instants.\<close>

definition isoDate :: "timestamp \<Rightarrow> int" where
  "isoDate t = t div 86400000"

definition minutes_between :: "timestamp \<Rightarrow> timestamp \<Rightarrow> real" where
  "minutes_between later earlier = real_of_int (later - earlier) / 60000"

text \<open>
  \<^verbatim>\<open>`cauldron_${id.split('_').pop()?.padStart(3, '0') || '001'}`\<close>: the part of the
  identifier after its last underscore, padded on the left with zeros to three characters.
  The alternative \<^verbatim>\<open>'001'\<close> stands for an empty padded text.
\<close>

fun last_segment :: "string \<Rightarrow> string \<Rightarrow> string" where
  "last_segment acc [] = acc"
| "last_segment acc (c # cs) = (if c = CHR ''_'' then last_segment [] cs else last_segment (acc @ [c]) cs)"

definition padStart3 :: "string \<Rightarrow> string" where
  "padStart3 s = replicate (3 - length s) CHR ''0'' @ s"

definition levelKey :: "string \<Rightarrow> string" where
  "levelKey cid =
     (let p = padStart3 (last_segment [] cid)
      in ''cauldron_'' @ (if p = [] then ''001'' else p))"

text \<open>The decimal text of an integer, as a template literal renders a number of this size.\<close>

fun digits :: "nat \<Rightarrow> string" where
  "digits n = (if n < 10 then [char_of (48 + n)] else digits (n div 10) @ [char_of (48 + n mod 10)])"

declare digits.simps [simp del]

definition show_int :: "int \<Rightarrow> string" where
  "show_int i = (if i < 0 then CHR ''-'' # digits (nat (- i)) else digits (nat i))"

definition show_opt :: "string option \<Rightarrow> string" where
  "show_opt s = (case s of None \<Rightarrow> ''null'' | Some v \<Rightarrow> v)"

definition str_or_null :: "string option \<Rightarrow> jsval" where
  "str_or_null s = (case s of None \<Rightarrow> Null | Some v \<Rightarrow> Str v)"

section \<open>Core metrics\<close>

subsection \<open>calculateFillRate\<close>

text \<open>
  The loop \<^verbatim>\<open>for (let i = 1; i < historicalData.length; i++)\<close> visits the consecutive
  pairs in order; \<open>slope_loop\<close> carries the previous sample and the slopes pushed so far.
\<close>

fun slope_loop :: "string \<Rightarrow> int \<Rightarrow> HistoricalDataDto \<Rightarrow> HistoricalDataDto list \<Rightarrow> real list \<Rightarrow> real list" where
  "slope_loop cauldronKey cutoffTime prevData [] positiveSlopes = positiveSlopes"
| "slope_loop cauldronKey cutoffTime prevData (currData # rest) positiveSlopes =
     (let dataTime = h_timestamp currData
      in if dataTime < cutoffTime then slope_loop cauldronKey cutoffTime currData rest positiveSlopes
         else
           let prevLevel = get_or (cauldron_levels prevData cauldronKey) 0;
               currLevel = get_or (cauldron_levels currData cauldronKey) 0;
               timeDiff = minutes_between dataTime (h_timestamp prevData)
           in if timeDiff > 0 \<and> currLevel > prevLevel
              then slope_loop cauldronKey cutoffTime currData rest
                     (positiveSlopes @ [(currLevel - prevLevel) / timeDiff])
              else slope_loop cauldronKey cutoffTime currData rest positiveSlopes)"

text \<open>The median as the source takes it from the sorted array.\<close>

definition median_sorted :: "real list \<Rightarrow> real" where
  "median_sorted s =
     (let mid = length s div 2
      in if length s mod 2 = 0 then (s ! (mid - 1) + s ! mid) / 2 else s ! mid)"

definition calculateFillRate :: "string \<Rightarrow> HistoricalDataDto list \<Rightarrow> int \<Rightarrow> real" where
  "calculateFillRate cid historicalData lookbackMinutes =
     (if length historicalData < 2 then 0
      else
        let cauldronKey = levelKey cid;
            currentTime = h_timestamp (last historicalData);
            cutoffTime = currentTime - lookbackMinutes * 60 * 1000;
            positiveSlopes = slope_loop cauldronKey cutoffTime (hd historicalData) (tl historicalData) []
        in if positiveSlopes = [] then 0 else median_sorted (sort positiveSlopes))"

subsection \<open>calculateExpectedDrainVolume and detectDrainStart\<close>

definition calculateExpectedDrainVolume :: "real \<Rightarrow> real \<Rightarrow> real \<Rightarrow> real \<Rightarrow> real" where
  "calculateExpectedDrainVolume levelBefore' levelAfter' fillRate durationMinutes =
     (let levelDrop = levelBefore' - levelAfter';
          fillDuringDrain = fillRate * durationMinutes
      in levelDrop + fillDuringDrain)"

definition detectDrainStart :: "CauldronDto \<Rightarrow> real \<Rightarrow> real \<Rightarrow> bool" where
  "detectDrainStart cauldron previousLevel currentLevel =
     (if \<not> truthy (cauldron_id_of cauldron) \<or> max_volume cauldron = 0 then False
      else
        let drop = previousLevel - currentLevel;
            threshold = 0.05 * max_volume cauldron
        in drop > threshold \<and> drop > 0)"

subsection \<open>matchTicketToDrain\<close>

definition abs_diff :: "timestamp \<Rightarrow> timestamp \<Rightarrow> int" where
  "abs_diff a b = \<bar>a - b\<bar>"

definition ticket_matches :: "DrainEvent \<Rightarrow> TicketDto \<Rightarrow> bool" where
  "ticket_matches drainEvent t =
     (case date t of
        None \<Rightarrow> False
      | Some d \<Rightarrow>
          if cauldron_id t \<noteq> Some (cauldronId drainEvent) then False
          else if isoDate d \<noteq> isoDate (timestamp drainEvent) then False
          else abs_diff d (timestamp drainEvent) \<le> 2 * 60 * 60 * 1000)"

text \<open>
  The comparator of the sort reads \<^verbatim>\<open>a.date!\<close>; every ticket that reaches the sort has a
  date.  \<^verbatim>\<open>Array.prototype.sort\<close> is stable, as is \<^const>\<open>sort_key\<close>.
\<close>

definition ticket_distance :: "DrainEvent \<Rightarrow> TicketDto \<Rightarrow> int" where
  "ticket_distance drainEvent t = abs_diff (case date t of None \<Rightarrow> 0 | Some d \<Rightarrow> d) (timestamp drainEvent)"

definition matchTicketToDrain :: "DrainEvent \<Rightarrow> TicketDto list \<Rightarrow> TicketDto option" where
  "matchTicketToDrain drainEvent tickets =
     (let matchingTickets = filter (ticket_matches drainEvent) tickets
      in if matchingTickets = [] then None
         else Some (hd (sort_key (ticket_distance drainEvent) matchingTickets)))"

section \<open>Discrepancy assessment rules\<close>

record Discrepancy =
  d_type :: string
  d_severity :: severity

definition assessDiscrepancy :: "DrainEvent \<Rightarrow> TicketDto option \<Rightarrow> real \<Rightarrow> Discrepancy option" where
  "assessDiscrepancy drainEvent ticket tolerance =
     (let expected = expectedDrainVolume drainEvent
      in case ticket of
           None \<Rightarrow> Some \<lparr>d_type = ''unlogged_event'', d_severity = Critical\<rparr>
         | Some t \<Rightarrow>
             let reported = amount_collected t;
                 diff = reported - expected
             in if diff > tolerance then Some \<lparr>d_type = ''overreporting'', d_severity = Warning\<rparr>
                else if diff < - tolerance then Some \<lparr>d_type = ''unlogged_drain'', d_severity = Critical\<rparr>
                else None)"

definition checkFalseTicket :: "TicketDto \<Rightarrow> DrainEvent list \<Rightarrow> bool" where
  "checkFalseTicket ticket recentDrains =
     (case date ticket of
        None \<Rightarrow> True
      | Some ticketTime \<Rightarrow>
          \<not> list_ex (\<lambda>drain. isoDate (timestamp drain) = isoDate ticketTime
                              \<and> abs_diff ticketTime (timestamp drain) \<le> 2 * 60 * 60 * 1000) recentDrains)"

definition detectCloggedFlow :: "DrainEvent \<Rightarrow> real \<Rightarrow> bool" where
  "detectCloggedFlow drainEvent baselineFillRate =
     (case refillRate drainEvent of
        None \<Rightarrow> False
      | Some r \<Rightarrow> if r = 0 \<or> baselineFillRate = 0 then False else r < 0.5 * baselineFillRate)"

record ProductionStop =
  isStopped :: bool
  ps_duration :: real

definition detectProductionStop ::
  "real \<Rightarrow> real \<Rightarrow> real \<Rightarrow> real \<Rightarrow> timestamp option \<Rightarrow> timestamp \<Rightarrow> ProductionStop" where
  "detectProductionStop currentLevel previousLevel timeDiff fillRate lastStable currentTimestamp =
     (let levelChange = currentLevel - previousLevel;
          currentRate = (if timeDiff > 0 then levelChange / timeDiff else 0)
      in if currentRate < PRODUCTION_STOP_THRESHOLD \<and> fillRate > 0
         then
           let stableTime = (case lastStable of None \<Rightarrow> currentTimestamp | Some t \<Rightarrow> t);
               dur = minutes_between currentTimestamp stableTime
           in \<lparr>isStopped = dur > PRODUCTION_STOP_DURATION, ps_duration = dur\<rparr>
         else \<lparr>isStopped = False, ps_duration = 0\<rparr>)"

record DailyCheck =
  exceedsThreshold :: bool
  discrepancyPercent :: real

definition checkDailyDiscrepancy :: "real \<Rightarrow> real \<Rightarrow> real \<Rightarrow> DailyCheck" where
  "checkDailyDiscrepancy totalExpected totalTicketed threshold =
     (if totalExpected = 0 then \<lparr>exceedsThreshold = False, discrepancyPercent = 0\<rparr>
      else
        let pct = (\<bar>totalExpected - totalTicketed\<bar> / totalExpected) * 100
        in \<lparr>exceedsThreshold = pct > threshold, discrepancyPercent = pct\<rparr>)"

record DelayCheck =
  isDelayed :: bool
  delayMinutes :: real

definition checkDeliveryDelay :: "TicketDto \<Rightarrow> NetworkDto option \<Rightarrow> timestamp \<Rightarrow> DelayCheck option" where
  "checkDeliveryDelay ticket network currentTimestamp =
     (case network of
        None \<Rightarrow> None
      | Some nw \<Rightarrow>
         (case edges nw of
            None \<Rightarrow> None
          | Some es \<Rightarrow>
             (case date ticket of
                None \<Rightarrow> None
              | Some ticketTime \<Rightarrow>
                  if \<not> truthy (cauldron_id ticket) then None
                  else
                    let timeSinceTicket = minutes_between currentTimestamp ticketTime
                    in case find (\<lambda>e. e_from e = cauldron_id ticket) es of
                         None \<Rightarrow> None
                       | Some edge \<Rightarrow>
                           if travel_time_minutes edge = 0 then None
                           else
                             let expectedTravelTime = travel_time_minutes edge;
                                 delayThreshold = expectedTravelTime * 1.3
                             in if timeSinceTicket > delayThreshold
                                then Some \<lparr>isDelayed = True, delayMinutes = timeSinceTicket - expectedTravelTime\<rparr>
                                else Some \<lparr>isDelayed = False, delayMinutes = 0\<rparr>)))"

section \<open>The orchestrator: monitorRealTime\<close>

definition initializeMonitoringState :: MonitoringState where
  "initializeMonitoringState =
     \<lparr>fillRates = Map.empty, baselineFillRates = Map.empty, lastLevels = Map.empty,
      drainEvents = [], dailyDrains = Map.empty, dailyTickets = Map.empty,
      discrepancyCounts = Map.empty, overflowForecasts = Map.empty, activeDrains = Map.empty,
      lastStableTime = Map.empty, acknowledgedAlerts = {}, criticalLevelAlerts = {}\<rparr>"

definition acknowledgeAlert :: "MonitoringState \<Rightarrow> string \<Rightarrow> MonitoringState" where
  "acknowledgeAlert state alertId = state\<lparr>acknowledgedAlerts := insert alertId (acknowledgedAlerts state)\<rparr>"

text \<open>
  The sample nearest to the tick: the loop keeps the first sample of least distance;
  \<open>None\<close> is the initial \<^verbatim>\<open>minDiff = Infinity\<close> with no sample chosen.
\<close>

fun nearest_loop :: "timestamp \<Rightarrow> HistoricalDataDto list \<Rightarrow> (int \<times> HistoricalDataDto) option \<Rightarrow> HistoricalDataDto option" where
  "nearest_loop currentTime [] best = map_option snd best"
| "nearest_loop currentTime (d # ds) best =
     (let diff = abs_diff (h_timestamp d) currentTime
      in case best of
           None \<Rightarrow> nearest_loop currentTime ds (Some (diff, d))
         | Some (minDiff, p) \<Rightarrow>
             if diff < minDiff then nearest_loop currentTime ds (Some (diff, d))
             else nearest_loop currentTime ds best)"

text \<open>
  \<^verbatim>\<open>updatedState.activeDrains.get(id)\<close>: the reference and the object it denotes.  A
  position outside the store denotes no object.
\<close>

definition getActiveDrain :: "MonitoringState \<Rightarrow> string \<Rightarrow> (nat \<times> DrainEvent) option" where
  "getActiveDrain us cid =
     (case activeDrains us cid of
        None \<Rightarrow> None
      | Some r \<Rightarrow> if r < length (drainEvents us) then Some (r, drainEvents us ! r) else None)"

subsection \<open>Rule A: drain detection\<close>

definition startDrain :: "string \<Rightarrow> timestamp \<Rightarrow> real \<Rightarrow> real \<Rightarrow> real \<Rightarrow> MonitoringState \<Rightarrow> MonitoringState" where
  "startDrain cid currentTime previousLevel currentLevel fillRate us =
     (let timeDiff = 1;
          newDrain = \<lparr>cauldronId = cid, timestamp = currentTime, levelBefore = previousLevel,
                      levelAfter = currentLevel,
                      expectedDrainVolume = calculateExpectedDrainVolume previousLevel currentLevel fillRate timeDiff,
                      duration = timeDiff, refillRate = None, isActive = True\<rparr>
      in us\<lparr>activeDrains := (activeDrains us)(cid \<mapsto> length (drainEvents us)),
             drainEvents := drainEvents us @ [newDrain]\<rparr>)"

definition continueDrainEvent :: "real \<Rightarrow> real \<Rightarrow> DrainEvent \<Rightarrow> DrainEvent" where
  "continueDrainEvent currentLevel fillRate activeDrain =
     (let timeDiff = 1;
          a1 = activeDrain\<lparr>levelAfter := currentLevel\<rparr>;
          a2 = a1\<lparr>duration := duration a1 + timeDiff\<rparr>
      in a2\<lparr>expectedDrainVolume :=
               calculateExpectedDrainVolume (levelBefore a2) (levelAfter a2) fillRate (duration a2)\<rparr>)"

definition continueDrain :: "nat \<Rightarrow> DrainEvent \<Rightarrow> real \<Rightarrow> real \<Rightarrow> MonitoringState \<Rightarrow> MonitoringState" where
  "continueDrain r activeDrain currentLevel fillRate us =
     us\<lparr>drainEvents := (drainEvents us)[r := continueDrainEvent currentLevel fillRate activeDrain]\<rparr>"

definition reportedVolume :: "TicketDto option \<Rightarrow> real" where
  "reportedVolume matchedTicket = (case matchedTicket of None \<Rightarrow> 0 | Some t \<Rightarrow> amount_collected t)"

definition discrepancyAlert ::
  "CauldronDto \<Rightarrow> string \<Rightarrow> timestamp \<Rightarrow> Discrepancy \<Rightarrow> DrainEvent \<Rightarrow> TicketDto option \<Rightarrow> Alert" where
  "discrepancyAlert cauldron cid currentTime discrepancy activeDrain matchedTicket =
     \<lparr>alert_id = d_type discrepancy @ ''-'' @ cid @ ''-'' @ show_int currentTime,
      alert_type = d_type discrepancy,
      alert_severity = d_severity discrepancy,
      alert_cauldronId = Some cid,
      alert_cauldronName = cauldron_name cauldron,
      alert_timestamp = currentTime,
      details = [(''expectedDrainVolume'', Num (expectedDrainVolume activeDrain)),
                 (''reportedVolume'', Num (reportedVolume matchedTicket)),
                 (''discrepancy'', Num \<bar>expectedDrainVolume activeDrain - reportedVolume matchedTicket\<bar>)]\<rparr>"

definition driftAlert :: "CauldronDto \<Rightarrow> string \<Rightarrow> timestamp \<Rightarrow> nat \<Rightarrow> Alert" where
  "driftAlert cauldron cid currentTime n =
     \<lparr>alert_id = ''drift-'' @ cid @ ''-'' @ show_int currentTime,
      alert_type = ''drift'',
      alert_severity = Critical,
      alert_cauldronId = Some cid,
      alert_cauldronName = cauldron_name cauldron,
      alert_timestamp = currentTime,
      details = [(''discrepancyCount'', Num (real n))]\<rparr>"

definition cloggedFlowAlert :: "CauldronDto \<Rightarrow> string \<Rightarrow> timestamp \<Rightarrow> DrainEvent \<Rightarrow> real \<Rightarrow> Alert" where
  "cloggedFlowAlert cauldron cid currentTime activeDrain baselineFillRate =
     \<lparr>alert_id = ''clogged-flow-'' @ cid @ ''-'' @ show_int currentTime,
      alert_type = ''clogged_flow'',
      alert_severity = Warning,
      alert_cauldronId = Some cid,
      alert_cauldronName = cauldron_name cauldron,
      alert_timestamp = currentTime,
      details = [(''refillRate'', (case refillRate activeDrain of None \<Rightarrow> Null | Some r \<Rightarrow> Num r)),
                 (''baselineFillRate'', Num baselineFillRate)]\<rparr>"

text \<open>The discrepancy found at finalization: the counter, the alert and the drift alert.\<close>

definition recordDiscrepancy ::
  "CauldronDto \<Rightarrow> string \<Rightarrow> timestamp \<Rightarrow> DrainEvent \<Rightarrow> TicketDto option
     \<Rightarrow> Alert list \<times> MonitoringState \<Rightarrow> Alert list \<times> MonitoringState" where
  "recordDiscrepancy cauldron cid currentTime activeDrain matchedTicket acc =
     (case assessDiscrepancy activeDrain matchedTicket TOLERANCE of
        None \<Rightarrow> acc
      | Some discrepancy \<Rightarrow>
          let count = (case discrepancyCounts (snd acc) cid of None \<Rightarrow> 0 | Some c \<Rightarrow> c);
              us1 = (snd acc)\<lparr>discrepancyCounts := (discrepancyCounts (snd acc))(cid \<mapsto> count + 1)\<rparr>;
              alerts1 = fst acc @ [discrepancyAlert cauldron cid currentTime discrepancy activeDrain matchedTicket]
          in if count + 1 \<ge> 2 then (alerts1 @ [driftAlert cauldron cid currentTime (count + 1)], us1)
             else (alerts1, us1))"

definition updateDailyDrains :: "string \<Rightarrow> int \<Rightarrow> DrainEvent \<Rightarrow> MonitoringState \<Rightarrow> MonitoringState" where
  "updateDailyDrains cid dateKey activeDrain us =
     (let dailyDrainsMap = (case dailyDrains us cid of None \<Rightarrow> Map.empty | Some m \<Rightarrow> m);
          currentDailyTotal = get_or (dailyDrainsMap dateKey) 0
      in us\<lparr>dailyDrains :=
              (dailyDrains us)(cid \<mapsto> dailyDrainsMap(dateKey \<mapsto> currentDailyTotal + expectedDrainVolume activeDrain))\<rparr>)"

definition storeMatchedTicket :: "string \<Rightarrow> int \<Rightarrow> TicketDto option \<Rightarrow> MonitoringState \<Rightarrow> MonitoringState" where
  "storeMatchedTicket cid dateKey matchedTicket us =
     (case matchedTicket of
        None \<Rightarrow> us
      | Some mt \<Rightarrow>
          let dailyTicketsMap = (case dailyTickets us cid of None \<Rightarrow> Map.empty | Some m \<Rightarrow> m);
              dayTickets = (case dailyTicketsMap dateKey of None \<Rightarrow> [] | Some ts \<Rightarrow> ts)
          in if find (\<lambda>t. ticket_id t = ticket_id mt) dayTickets = None
             then us\<lparr>dailyTickets := (dailyTickets us)(cid \<mapsto> dailyTicketsMap(dateKey \<mapsto> dayTickets @ [mt]))\<rparr>
             else us)"

text \<open>The drain found stable: the object is closed in the store, then assessed.\<close>

definition closeDrainEvent :: "real \<Rightarrow> real \<Rightarrow> DrainEvent \<Rightarrow> DrainEvent" where
  "closeDrainEvent currentLevel timeSinceLastDrop activeDrain =
     (let rr = (if currentLevel > levelAfter activeDrain
                then (currentLevel - levelAfter activeDrain) / timeSinceLastDrop else 0)
      in activeDrain\<lparr>refillRate := Some rr, isActive := False\<rparr>)"

definition finalizeDrain ::
  "CauldronDto \<Rightarrow> string \<Rightarrow> real \<Rightarrow> real \<Rightarrow> TicketDto list \<Rightarrow> timestamp \<Rightarrow> int \<Rightarrow> nat \<Rightarrow> DrainEvent \<Rightarrow> real
     \<Rightarrow> Alert list \<times> MonitoringState \<Rightarrow> Alert list \<times> MonitoringState" where
  "finalizeDrain cauldron cid currentLevel baselineFillRate tickets currentTime dateKey r activeDrain
       timeSinceLastDrop acc =
     (let closed = closeDrainEvent currentLevel timeSinceLastDrop activeDrain;
          us1 = (snd acc)\<lparr>drainEvents := (drainEvents (snd acc))[r := closed]\<rparr>;
          matchedTicket = matchTicketToDrain closed tickets;
          acc2 = recordDiscrepancy cauldron cid currentTime closed matchedTicket (fst acc, us1);
          alerts3 = (if detectCloggedFlow closed baselineFillRate
                     then fst acc2 @ [cloggedFlowAlert cauldron cid currentTime closed baselineFillRate]
                     else fst acc2);
          us3 = updateDailyDrains cid dateKey closed (snd acc2);
          us4 = storeMatchedTicket cid dateKey matchedTicket us3
      in (alerts3, us4\<lparr>activeDrains := (activeDrains us4)(cid := None)\<rparr>))"

definition ruleA ::
  "CauldronDto \<Rightarrow> string \<Rightarrow> real \<Rightarrow> real \<Rightarrow> real \<Rightarrow> real \<Rightarrow> TicketDto list \<Rightarrow> timestamp \<Rightarrow> int
     \<Rightarrow> Alert list \<times> MonitoringState \<Rightarrow> Alert list \<times> MonitoringState" where
  "ruleA cauldron cid previousLevel currentLevel fillRate baselineFillRate tickets currentTime dateKey acc =
     (if detectDrainStart cauldron previousLevel currentLevel
      then (case getActiveDrain (snd acc) cid of
              None \<Rightarrow> (fst acc, startDrain cid currentTime previousLevel currentLevel fillRate (snd acc))
            | Some (r, activeDrain) \<Rightarrow> (fst acc, continueDrain r activeDrain currentLevel fillRate (snd acc)))
      else (case getActiveDrain (snd acc) cid of
              None \<Rightarrow> acc
            | Some (r, activeDrain) \<Rightarrow>
                let timeSinceLastDrop = minutes_between currentTime (timestamp activeDrain)
                in if timeSinceLastDrop \<ge> DRAIN_STABILIZATION_TIME
                   then finalizeDrain cauldron cid currentLevel baselineFillRate tickets currentTime dateKey
                          r activeDrain timeSinceLastDrop acc
                   else acc))"

subsection \<open>Case C: false tickets\<close>

definition falseTicketAlert :: "CauldronDto \<Rightarrow> string \<Rightarrow> timestamp \<Rightarrow> TicketDto \<Rightarrow> Alert" where
  "falseTicketAlert cauldron cid currentTime ticket =
     \<lparr>alert_id = ''false-ticket-'' @ show_opt (ticket_id ticket) @ ''-'' @ show_int currentTime,
      alert_type = ''false_ticket'',
      alert_severity = Warning,
      alert_cauldronId = Some cid,
      alert_cauldronName = cauldron_name cauldron,
      alert_timestamp = currentTime,
      details = [(''ticketId'', str_or_null (ticket_id ticket)),
                 (''ticketAmount'', Num (amount_collected ticket))]\<rparr>"

definition caseC :: "CauldronDto \<Rightarrow> string \<Rightarrow> TicketDto list \<Rightarrow> timestamp \<Rightarrow> MonitoringState \<Rightarrow> Alert list" where
  "caseC cauldron cid tickets currentTime us =
     (let cauldronTickets = filter (\<lambda>t. cauldron_id t = Some cid \<and> date t \<noteq> None) tickets;
          recentDrains = filter (\<lambda>d. cauldronId d = cid \<and> \<not> isActive d) (drainEvents us)
      in map (falseTicketAlert cauldron cid currentTime)
           (filter (\<lambda>ticket. checkFalseTicket ticket recentDrains) cauldronTickets))"

subsection \<open>Case G: production stop\<close>

definition productionStopAlert :: "CauldronDto \<Rightarrow> string \<Rightarrow> timestamp \<Rightarrow> real \<Rightarrow> real \<Rightarrow> Alert" where
  "productionStopAlert cauldron cid currentTime dur currentLevel =
     \<lparr>alert_id = ''production-stop-'' @ cid @ ''-'' @ show_int currentTime,
      alert_type = ''production_stop'',
      alert_severity = Critical,
      alert_cauldronId = Some cid,
      alert_cauldronName = cauldron_name cauldron,
      alert_timestamp = currentTime,
      details = [(''duration'', Num dur), (''currentLevel'', Num currentLevel)]\<rparr>"

definition caseG ::
  "CauldronDto \<Rightarrow> string \<Rightarrow> real \<Rightarrow> real \<Rightarrow> real \<Rightarrow> timestamp
     \<Rightarrow> Alert list \<times> MonitoringState \<Rightarrow> Alert list \<times> MonitoringState" where
  "caseG cauldron cid currentLevel previousLevel fillRate currentTime acc =
     (let timeDiff = 1;
          productionStop = detectProductionStop currentLevel previousLevel timeDiff fillRate
                             (lastStableTime (snd acc) cid) currentTime
      in if isStopped productionStop
         then (fst acc @ [productionStopAlert cauldron cid currentTime (ps_duration productionStop) currentLevel],
               snd acc)
         else if currentLevel > previousLevel
         then (fst acc, (snd acc)\<lparr>lastStableTime := (lastStableTime (snd acc))(cid := None)\<rparr>)
         else if lastStableTime (snd acc) cid = None
         then (fst acc, (snd acc)\<lparr>lastStableTime := (lastStableTime (snd acc))(cid \<mapsto> currentTime)\<rparr>)
         else acc)"

subsection \<open>Rule 6: overflow forecast\<close>

definition overflowAlert :: "CauldronDto \<Rightarrow> string \<Rightarrow> timestamp \<Rightarrow> real \<Rightarrow> real \<Rightarrow> Alert" where
  "overflowAlert cauldron cid currentTime timeToOverflow currentLevel =
     \<lparr>alert_id = ''overflow-'' @ cid,
      alert_type = ''overflow'',
      alert_severity = Critical,
      alert_cauldronId = Some cid,
      alert_cauldronName = cauldron_name cauldron,
      alert_timestamp = currentTime,
      details = [(''timeToOverflow'', Num timeToOverflow), (''currentLevel'', Num currentLevel),
                 (''maxVolume'', Num (max_volume cauldron))]\<rparr>"

definition rule6 ::
  "CauldronDto \<Rightarrow> string \<Rightarrow> real \<Rightarrow> real \<Rightarrow> timestamp
     \<Rightarrow> Alert list \<times> MonitoringState \<Rightarrow> Alert list \<times> MonitoringState" where
  "rule6 cauldron cid currentLevel fillRate currentTime acc =
     (if fillRate > 0
      then
        let timeToOverflow = (max_volume cauldron - currentLevel) / fillRate;
            us1 = (snd acc)\<lparr>overflowForecasts := (overflowForecasts (snd acc))(cid \<mapsto> timeToOverflow)\<rparr>;
            alertId = ''overflow-'' @ cid;
            shouldAlert = (timeToOverflow \<ge> 9 \<and> timeToOverflow \<le> 11
                           \<and> alertId \<notin> acknowledgedAlerts us1 \<and> timeToOverflow < 240)
        in if shouldAlert
           then (fst acc @ [overflowAlert cauldron cid currentTime timeToOverflow currentLevel], us1)
           else (fst acc, us1)
      else acc)"

subsection \<open>Critical level\<close>

definition criticalLevelAlert :: "CauldronDto \<Rightarrow> string \<Rightarrow> timestamp \<Rightarrow> real \<Rightarrow> Alert" where
  "criticalLevelAlert cauldron cid currentTime currentLevel =
     \<lparr>alert_id = ''critical-level-'' @ cid,
      alert_type = ''critical_level'',
      alert_severity = Critical,
      alert_cauldronId = Some cid,
      alert_cauldronName = cauldron_name cauldron,
      alert_timestamp = currentTime,
      details = [(''currentLevel'', Num currentLevel), (''maxVolume'', Num (max_volume cauldron))]\<rparr>"

definition criticalLevel ::
  "CauldronDto \<Rightarrow> string \<Rightarrow> real \<Rightarrow> real \<Rightarrow> timestamp
     \<Rightarrow> Alert list \<times> MonitoringState \<Rightarrow> Alert list \<times> MonitoringState" where
  "criticalLevel cauldron cid currentLevel previousLevel currentTime acc =
     (let percentage = (currentLevel / max_volume cauldron) * 100;
          previousPercentage = (previousLevel / max_volume cauldron) * 100;
          criticalThreshold = 80
      in if percentage > criticalThreshold \<and> previousPercentage \<le> criticalThreshold
         then
           let alertId = ''critical-level-'' @ cid
           in if alertId \<notin> acknowledgedAlerts (snd acc) \<and> cid \<notin> criticalLevelAlerts (snd acc)
              then (fst acc @ [criticalLevelAlert cauldron cid currentTime currentLevel],
                    (snd acc)\<lparr>criticalLevelAlerts := insert cid (criticalLevelAlerts (snd acc))\<rparr>)
              else acc
         else if percentage \<le> criticalThreshold \<and> previousPercentage > criticalThreshold
         then (fst acc, (snd acc)\<lparr>criticalLevelAlerts := criticalLevelAlerts (snd acc) - {cid}\<rparr>)
         else acc)"

subsection \<open>The body of the loop over the cauldrons\<close>

text \<open>
  \<open>state\<close> is the state the tick was called with (the previous level is read from it),
  the accumulator holds the alerts pushed so far and the copy that is updated.
\<close>

definition updateFillRates :: "string \<Rightarrow> real \<Rightarrow> MonitoringState \<Rightarrow> MonitoringState" where
  "updateFillRates cid fillRate us =
     (let us1 = (if baselineFillRates us cid = None \<and> fillRate > 0
                 then us\<lparr>baselineFillRates := (baselineFillRates us)(cid \<mapsto> fillRate)\<rparr> else us)
      in us1\<lparr>fillRates := (fillRates us1)(cid \<mapsto> fillRate)\<rparr>)"

definition processCauldron ::
  "HistoricalDataDto list \<Rightarrow> TicketDto list \<Rightarrow> timestamp \<Rightarrow> MonitoringState \<Rightarrow> (string \<rightharpoonup> real) \<Rightarrow> int
     \<Rightarrow> Alert list \<times> MonitoringState \<Rightarrow> CauldronDto \<Rightarrow> Alert list \<times> MonitoringState" where
  "processCauldron historicalData tickets currentTime state currentLevels dateKey acc cauldron =
     (case cauldron_id_of cauldron of
        None \<Rightarrow> acc
      | Some cid \<Rightarrow>
          if cid = [] \<or> max_volume cauldron = 0 then acc
          else
            let currentLevel = get_or (currentLevels (levelKey cid)) 0;
                previousLevel = get_or (lastLevels state cid) currentLevel;
                fillRate = calculateFillRate cid historicalData 60;
                baselineFillRate = get_or (baselineFillRates (snd acc) cid) fillRate;
                acc1 = (fst acc, updateFillRates cid fillRate (snd acc));
                acc2 = ruleA cauldron cid previousLevel currentLevel fillRate baselineFillRate tickets
                         currentTime dateKey acc1;
                acc3 = (fst acc2 @ caseC cauldron cid tickets currentTime (snd acc2), snd acc2);
                acc4 = caseG cauldron cid currentLevel previousLevel fillRate currentTime acc3;
                acc5 = rule6 cauldron cid currentLevel fillRate currentTime acc4;
                acc6 = criticalLevel cauldron cid currentLevel previousLevel currentTime acc5
            in (fst acc6, (snd acc6)\<lparr>lastLevels := (lastLevels (snd acc6))(cid \<mapsto> currentLevel)\<rparr>))"

subsection \<open>Case H: the daily summary\<close>

text \<open>
  \<^verbatim>\<open>getHours()\<close> and \<^verbatim>\<open>getMinutes()\<close> read the local time of the environment.  The
  environment is the parameter \<open>tzOffset\<close>: the minutes that \<^verbatim>\<open>getTimezoneOffset()\<close>
  gives at an instant (UTC minus local time).
\<close>

definition getHours :: "(timestamp \<Rightarrow> int) \<Rightarrow> timestamp \<Rightarrow> int" where
  "getHours tzOffset t = ((t - tzOffset t * 60000) div 3600000) mod 24"

definition getMinutes :: "(timestamp \<Rightarrow> int) \<Rightarrow> timestamp \<Rightarrow> int" where
  "getMinutes tzOffset t = ((t - tzOffset t * 60000) div 60000) mod 60"

definition dailyTotals :: "MonitoringState \<Rightarrow> int \<Rightarrow> real \<times> real \<Rightarrow> CauldronDto \<Rightarrow> real \<times> real" where
  "dailyTotals us dateKey totals cauldron =
     (case cauldron_id_of cauldron of
        None \<Rightarrow> totals
      | Some cid \<Rightarrow>
          if cid = [] then totals
          else
            let dailyDrainsMap = (case dailyDrains us cid of None \<Rightarrow> Map.empty | Some m \<Rightarrow> m);
                dailyTicketsMap = (case dailyTickets us cid of None \<Rightarrow> Map.empty | Some m \<Rightarrow> m);
                dayTickets = (case dailyTicketsMap dateKey of None \<Rightarrow> [] | Some ts \<Rightarrow> ts)
            in (fst totals + get_or (dailyDrainsMap dateKey) 0,
                snd totals + foldl (\<lambda>sum t. sum + amount_collected t) 0 dayTickets))"

definition auditAlert :: "timestamp \<Rightarrow> real \<Rightarrow> real \<Rightarrow> real \<Rightarrow> Alert" where
  "auditAlert currentTime totalExpected totalTicketed pct =
     \<lparr>alert_id = ''daily-audit-'' @ show_int currentTime,
      alert_type = ''audit'',
      alert_severity = Warning,
      alert_cauldronId = None,
      alert_cauldronName = None,
      alert_timestamp = currentTime,
      details = [(''totalExpected'', Num totalExpected), (''totalTicketed'', Num totalTicketed),
                 (''discrepancyPercent'', Num pct)]\<rparr>"

definition caseH :: "(timestamp \<Rightarrow> int) \<Rightarrow> CauldronDto list \<Rightarrow> timestamp \<Rightarrow> int \<Rightarrow> MonitoringState \<Rightarrow> Alert list" where
  "caseH tzOffset cauldrons currentTime dateKey us =
     (if getHours tzOffset currentTime = 23 \<and> getMinutes tzOffset currentTime \<ge> 55
      then
        let totals = foldl (dailyTotals us dateKey) (0, 0) cauldrons;
            dailyCheck = checkDailyDiscrepancy (fst totals) (snd totals) 5
        in if exceedsThreshold dailyCheck
           then [auditAlert currentTime (fst totals) (snd totals) (discrepancyPercent dailyCheck)]
           else []
      else [])"

subsection \<open>Delivery integrity\<close>

definition deliveryDelayAlert :: "string \<Rightarrow> timestamp \<Rightarrow> TicketDto \<Rightarrow> real \<Rightarrow> Alert" where
  "deliveryDelayAlert courierId currentTime ticket delay =
     \<lparr>alert_id = ''delivery-delay-'' @ courierId @ ''-'' @ show_int currentTime,
      alert_type = ''delivery_delay'',
      alert_severity = Warning,
      alert_cauldronId = (if truthy (cauldron_id ticket) then cauldron_id ticket else None),
      alert_cauldronName = None,
      alert_timestamp = currentTime,
      details = [(''courierId'', Str courierId), (''delayMinutes'', Num delay)]\<rparr>"

definition courierAlerts :: "TicketDto list \<Rightarrow> NetworkDto \<Rightarrow> timestamp \<Rightarrow> CourierDto \<Rightarrow> Alert list" where
  "courierAlerts tickets network currentTime courier =
     (case c_courier_id courier of
        None \<Rightarrow> []
      | Some courierId \<Rightarrow>
          if courierId = [] then []
          else
            let courierTickets = filter (\<lambda>t. courier_id t = Some courierId \<and> date t \<noteq> None) tickets
            in concat (map (\<lambda>ticket.
                 case checkDeliveryDelay ticket (Some network) currentTime of
                   None \<Rightarrow> []
                 | Some delayCheck \<Rightarrow>
                     if isDelayed delayCheck
                     then [deliveryDelayAlert courierId currentTime ticket (delayMinutes delayCheck)]
                     else []) courierTickets))"

definition deliveryIntegrity ::
  "TicketDto list \<Rightarrow> CourierDto list option \<Rightarrow> NetworkDto option \<Rightarrow> timestamp \<Rightarrow> Alert list" where
  "deliveryIntegrity tickets couriers network currentTime =
     (case couriers of
        None \<Rightarrow> []
      | Some cs \<Rightarrow>
         (case network of
            None \<Rightarrow> []
          | Some nw \<Rightarrow> concat (map (courierAlerts tickets nw currentTime) cs)))"

subsection \<open>monitorRealTime\<close>

definition monitorRealTime ::
  "(timestamp \<Rightarrow> int) \<Rightarrow> CauldronDto list \<Rightarrow> HistoricalDataDto list \<Rightarrow> TicketDto list \<Rightarrow> timestamp
     \<Rightarrow> MonitoringState \<Rightarrow> CourierDto list option \<Rightarrow> NetworkDto option \<Rightarrow> Alert list \<times> MonitoringState" where
  "monitorRealTime tzOffset cauldrons historicalData tickets currentTime state couriers network =
     (case nearest_loop currentTime historicalData None of
        None \<Rightarrow> ([], state)
      | Some currentDataPoint \<Rightarrow>
          let currentLevels = cauldron_levels currentDataPoint;
              dateKey = isoDate currentTime;
              acc = foldl (processCauldron historicalData tickets currentTime state currentLevels dateKey)
                      ([], state) cauldrons;
              alerts1 = fst acc @ caseH tzOffset cauldrons currentTime dateKey (snd acc)
          in (alerts1 @ deliveryIntegrity tickets couriers network currentTime, snd acc))"

text \<open>
  A run of ticks, as the dashboard drives them: the cauldrons, the telemetry and the
  tickets stay, the clock advances, and the state a tick returns is the state the next
  tick is called with.  The result lists the alerts of each tick.
\<close>

fun runTicks ::
  "(timestamp \<Rightarrow> int) \<Rightarrow> CauldronDto list \<Rightarrow> HistoricalDataDto list \<Rightarrow> TicketDto list
     \<Rightarrow> CourierDto list option \<Rightarrow> NetworkDto option \<Rightarrow> MonitoringState \<Rightarrow> timestamp list
     \<Rightarrow> Alert list list \<times> MonitoringState" where
  "runTicks tzOffset cauldrons historicalData tickets couriers network state [] = ([], state)"
| "runTicks tzOffset cauldrons historicalData tickets couriers network state (t # ts) =
     (let r = monitorRealTime tzOffset cauldrons historicalData tickets t state couriers network;
          rest = runTicks tzOffset cauldrons historicalData tickets couriers network (snd r) ts
      in (fst r # fst rest, snd rest))"

section \<open>Ticket dates that do not parse\<close>

text \<open>
  The date of a ticket is a text.  \<^verbatim>\<open>new Date(text)\<close> of a text that does not parse is an
  invalid date: its \<^verbatim>\<open>getTime()\<close> is NaN, which exceeds nothing and is exceeded by nothing,
  and its \<^verbatim>\<open>toISOString()\<close> throws a \<^verbatim>\<open>RangeError\<close>.  The functions of this section
  are the functions of the tick that read the date of a ticket, on tickets whose date is
  missing (null or empty), does not parse, or parses; an exception is the value \<open>Inl\<close>.
  A ticket that the source keeps (a match, the ticket of an alert, a recorded ticket) has a
  date that parses, and is kept as its \<open>parsed\<close> form.
\<close>

datatype error = RangeError

datatype date_text = NoDate | BadDate | GoodDate timestamp

record TicketText =
  text_ticket_id :: "string option"
  text_cauldron_id :: "string option"
  text_amount_collected :: real
  text_courier_id :: "string option"
  text_date :: date_text

definition parsed :: "TicketText \<Rightarrow> TicketDto" where
  "parsed t =
     \<lparr>ticket_id = text_ticket_id t, cauldron_id = text_cauldron_id t,
      amount_collected = text_amount_collected t, courier_id = text_courier_id t,
      date = (case text_date t of NoDate \<Rightarrow> None | BadDate \<Rightarrow> None | GoodDate ms \<Rightarrow> Some ms)\<rparr>"

text \<open>
  The filter of \<^verbatim>\<open>matchTicketToDrain\<close>: the callback returns false for a ticket without
  date or of another vessel, and calls \<^verbatim>\<open>toISOString()\<close> on the date otherwise.
\<close>

fun matchingTicketsRaw :: "DrainEvent \<Rightarrow> TicketText list \<Rightarrow> error + TicketDto list" where
  "matchingTicketsRaw drainEvent [] = Inr []"
| "matchingTicketsRaw drainEvent (t # ts) =
     (case text_date t of
        NoDate \<Rightarrow> matchingTicketsRaw drainEvent ts
      | BadDate \<Rightarrow>
          if text_cauldron_id t \<noteq> Some (cauldronId drainEvent) then matchingTicketsRaw drainEvent ts
          else Inl RangeError
      | GoodDate ms \<Rightarrow>
          (case matchingTicketsRaw drainEvent ts of
             Inl e \<Rightarrow> Inl e
           | Inr rest \<Rightarrow> Inr (if ticket_matches drainEvent (parsed t) then parsed t # rest else rest)))"

definition matchTicketToDrainRaw :: "DrainEvent \<Rightarrow> TicketText list \<Rightarrow> error + TicketDto option" where
  "matchTicketToDrainRaw drainEvent tickets =
     (case matchingTicketsRaw drainEvent tickets of
        Inl e \<Rightarrow> Inl e
      | Inr matchingTickets \<Rightarrow>
          Inr (if matchingTickets = [] then None
               else Some (hd (sort_key (ticket_distance drainEvent) matchingTickets))))"

text \<open>
  \<^verbatim>\<open>checkFalseTicket\<close> takes the time of the ticket and then, for a ticket with a date,
  its day with \<^verbatim>\<open>toISOString()\<close>.
\<close>

definition checkFalseTicketRaw :: "TicketText \<Rightarrow> DrainEvent list \<Rightarrow> error + bool" where
  "checkFalseTicketRaw tk recentDrains =
     (case text_date tk of
        BadDate \<Rightarrow> Inl RangeError
      | NoDate \<Rightarrow> Inr (checkFalseTicket (parsed tk) recentDrains)
      | GoodDate ms \<Rightarrow> Inr (checkFalseTicket (parsed tk) recentDrains))"

fun falseTicketLoop ::
  "CauldronDto \<Rightarrow> string \<Rightarrow> timestamp \<Rightarrow> DrainEvent list \<Rightarrow> TicketText list \<Rightarrow> Alert list \<Rightarrow> error + Alert list" where
  "falseTicketLoop cauldron cid currentTime recentDrains [] alerts = Inr alerts"
| "falseTicketLoop cauldron cid currentTime recentDrains (t # ts) alerts =
     (case checkFalseTicketRaw t recentDrains of
        Inl e \<Rightarrow> Inl e
      | Inr isFalse \<Rightarrow>
          falseTicketLoop cauldron cid currentTime recentDrains ts
            (if isFalse then alerts @ [falseTicketAlert cauldron cid currentTime (parsed t)] else alerts))"

definition caseCRaw ::
  "CauldronDto \<Rightarrow> string \<Rightarrow> TicketText list \<Rightarrow> timestamp \<Rightarrow> MonitoringState \<Rightarrow> error + Alert list" where
  "caseCRaw cauldron cid tickets currentTime us =
     (let cauldronTickets = filter (\<lambda>t. text_cauldron_id t = Some cid \<and> text_date t \<noteq> NoDate) tickets;
          recentDrains = filter (\<lambda>d. cauldronId d = cid \<and> \<not> isActive d) (drainEvents us)
      in falseTicketLoop cauldron cid currentTime recentDrains cauldronTickets [])"

text \<open>The finalization of a drain, after the ticket has been matched.\<close>

definition assessClosedDrain ::
  "CauldronDto \<Rightarrow> string \<Rightarrow> real \<Rightarrow> timestamp \<Rightarrow> int \<Rightarrow> nat \<Rightarrow> DrainEvent \<Rightarrow> TicketDto option
     \<Rightarrow> Alert list \<times> MonitoringState \<Rightarrow> Alert list \<times> MonitoringState" where
  "assessClosedDrain cauldron cid baselineFillRate currentTime dateKey r closedDrain matchedTicket acc =
     (let us1 = (snd acc)\<lparr>drainEvents := (drainEvents (snd acc))[r := closedDrain]\<rparr>;
          acc2 = recordDiscrepancy cauldron cid currentTime closedDrain matchedTicket (fst acc, us1);
          alerts3 = (if detectCloggedFlow closedDrain baselineFillRate
                     then fst acc2 @ [cloggedFlowAlert cauldron cid currentTime closedDrain baselineFillRate]
                     else fst acc2);
          us3 = updateDailyDrains cid dateKey closedDrain (snd acc2);
          us4 = storeMatchedTicket cid dateKey matchedTicket us3
      in (alerts3, us4\<lparr>activeDrains := (activeDrains us4)(cid := None)\<rparr>))"

definition finalizeDrainRaw ::
  "CauldronDto \<Rightarrow> string \<Rightarrow> real \<Rightarrow> real \<Rightarrow> TicketText list \<Rightarrow> timestamp \<Rightarrow> int \<Rightarrow> nat \<Rightarrow> DrainEvent \<Rightarrow> real
     \<Rightarrow> Alert list \<times> MonitoringState \<Rightarrow> error + Alert list \<times> MonitoringState" where
  "finalizeDrainRaw cauldron cid currentLevel baselineFillRate tickets currentTime dateKey r activeDrain
       timeSinceLastDrop acc =
     (let closedDrain = closeDrainEvent currentLevel timeSinceLastDrop activeDrain
      in case matchTicketToDrainRaw closedDrain tickets of
           Inl e \<Rightarrow> Inl e
         | Inr matchedTicket \<Rightarrow>
             Inr (assessClosedDrain cauldron cid baselineFillRate currentTime dateKey r closedDrain matchedTicket acc))"

definition ruleARaw ::
  "CauldronDto \<Rightarrow> string \<Rightarrow> real \<Rightarrow> real \<Rightarrow> real \<Rightarrow> real \<Rightarrow> TicketText list \<Rightarrow> timestamp \<Rightarrow> int
     \<Rightarrow> Alert list \<times> MonitoringState \<Rightarrow> error + Alert list \<times> MonitoringState" where
  "ruleARaw cauldron cid previousLevel currentLevel fillRate baselineFillRate tickets currentTime dateKey acc =
     (if detectDrainStart cauldron previousLevel currentLevel
      then (case getActiveDrain (snd acc) cid of
              None \<Rightarrow> Inr (fst acc, startDrain cid currentTime previousLevel currentLevel fillRate (snd acc))
            | Some (r, activeDrain) \<Rightarrow>
                Inr (fst acc, continueDrain r activeDrain currentLevel fillRate (snd acc)))
      else (case getActiveDrain (snd acc) cid of
              None \<Rightarrow> Inr acc
            | Some (r, activeDrain) \<Rightarrow>
                let timeSinceLastDrop = minutes_between currentTime (timestamp activeDrain)
                in if timeSinceLastDrop \<ge> DRAIN_STABILIZATION_TIME
                   then finalizeDrainRaw cauldron cid currentLevel baselineFillRate tickets currentTime dateKey
                          r activeDrain timeSinceLastDrop acc
                   else Inr acc))"

text \<open>The rest of the body of the loop, from the production stop to the last level.\<close>

definition afterFalseTickets ::
  "CauldronDto \<Rightarrow> string \<Rightarrow> real \<Rightarrow> real \<Rightarrow> real \<Rightarrow> timestamp
     \<Rightarrow> Alert list \<times> MonitoringState \<Rightarrow> Alert list \<times> MonitoringState" where
  "afterFalseTickets cauldron cid currentLevel previousLevel fillRate currentTime acc3 =
     (let acc4 = caseG cauldron cid currentLevel previousLevel fillRate currentTime acc3;
          acc5 = rule6 cauldron cid currentLevel fillRate currentTime acc4;
          acc6 = criticalLevel cauldron cid currentLevel previousLevel currentTime acc5
      in (fst acc6, (snd acc6)\<lparr>lastLevels := (lastLevels (snd acc6))(cid \<mapsto> currentLevel)\<rparr>))"

definition processCauldronRaw ::
  "HistoricalDataDto list \<Rightarrow> TicketText list \<Rightarrow> timestamp \<Rightarrow> MonitoringState \<Rightarrow> (string \<rightharpoonup> real) \<Rightarrow> int
     \<Rightarrow> Alert list \<times> MonitoringState \<Rightarrow> CauldronDto \<Rightarrow> error + Alert list \<times> MonitoringState" where
  "processCauldronRaw historicalData tickets currentTime state currentLevels dateKey acc cauldron =
     (case cauldron_id_of cauldron of
        None \<Rightarrow> Inr acc
      | Some cid \<Rightarrow>
          if cid = [] \<or> max_volume cauldron = 0 then Inr acc
          else
            let currentLevel = get_or (currentLevels (levelKey cid)) 0;
                previousLevel = get_or (lastLevels state cid) currentLevel;
                fillRate = calculateFillRate cid historicalData 60;
                baselineFillRate = get_or (baselineFillRates (snd acc) cid) fillRate;
                acc1 = (fst acc, updateFillRates cid fillRate (snd acc))
            in case ruleARaw cauldron cid previousLevel currentLevel fillRate baselineFillRate tickets
                      currentTime dateKey acc1 of
                 Inl e \<Rightarrow> Inl e
               | Inr acc2 \<Rightarrow>
                   (case caseCRaw cauldron cid tickets currentTime (snd acc2) of
                      Inl e \<Rightarrow> Inl e
                    | Inr falseTickets \<Rightarrow>
                        Inr (afterFalseTickets cauldron cid currentLevel previousLevel fillRate currentTime
                               (fst acc2 @ falseTickets, snd acc2))))"

text \<open>\<^verbatim>\<open>cauldrons.forEach\<close> with a body that can throw.\<close>

fun forEachCauldron ::
  "(Alert list \<times> MonitoringState \<Rightarrow> CauldronDto \<Rightarrow> error + Alert list \<times> MonitoringState)
     \<Rightarrow> Alert list \<times> MonitoringState \<Rightarrow> CauldronDto list \<Rightarrow> error + Alert list \<times> MonitoringState" where
  "forEachCauldron body acc [] = Inr acc"
| "forEachCauldron body acc (c # cs) =
     (case body acc c of Inl e \<Rightarrow> Inl e | Inr acc' \<Rightarrow> forEachCauldron body acc' cs)"

text \<open>
  \<^verbatim>\<open>checkDeliveryDelay\<close> reads the date with \<^verbatim>\<open>getTime()\<close> only: for a date that does not
  parse the time since the ticket is NaN, which is not greater than the threshold.
\<close>

definition checkDeliveryDelayRaw :: "TicketText \<Rightarrow> NetworkDto option \<Rightarrow> timestamp \<Rightarrow> DelayCheck option" where
  "checkDeliveryDelayRaw tk network currentTimestamp =
     (case text_date tk of
        NoDate \<Rightarrow> checkDeliveryDelay (parsed tk) network currentTimestamp
      | GoodDate ms \<Rightarrow> checkDeliveryDelay (parsed tk) network currentTimestamp
      | BadDate \<Rightarrow>
         (case network of
            None \<Rightarrow> None
          | Some nw \<Rightarrow>
             (case edges nw of
                None \<Rightarrow> None
              | Some es \<Rightarrow>
                  if \<not> truthy (text_cauldron_id tk) then None
                  else
                    case find (\<lambda>e. e_from e = text_cauldron_id tk) es of
                      None \<Rightarrow> None
                    | Some edge \<Rightarrow>
                        if travel_time_minutes edge = 0 then None
                        else Some \<lparr>isDelayed = False, delayMinutes = 0\<rparr>)))"

definition courierAlertsRaw :: "TicketText list \<Rightarrow> NetworkDto \<Rightarrow> timestamp \<Rightarrow> CourierDto \<Rightarrow> Alert list" where
  "courierAlertsRaw tickets network currentTime courier =
     (case c_courier_id courier of
        None \<Rightarrow> []
      | Some courierId \<Rightarrow>
          if courierId = [] then []
          else
            let courierTickets = filter (\<lambda>t. text_courier_id t = Some courierId \<and> text_date t \<noteq> NoDate) tickets
            in concat (map (\<lambda>tk.
                 case checkDeliveryDelayRaw tk (Some network) currentTime of
                   None \<Rightarrow> []
                 | Some delayCheck \<Rightarrow>
                     if isDelayed delayCheck
                     then [deliveryDelayAlert courierId currentTime (parsed tk) (delayMinutes delayCheck)]
                     else []) courierTickets))"

definition deliveryIntegrityRaw ::
  "TicketText list \<Rightarrow> CourierDto list option \<Rightarrow> NetworkDto option \<Rightarrow> timestamp \<Rightarrow> Alert list" where
  "deliveryIntegrityRaw tickets couriers network currentTime =
     (case couriers of
        None \<Rightarrow> []
      | Some cs \<Rightarrow>
         (case network of
            None \<Rightarrow> []
          | Some nw \<Rightarrow> concat (map (courierAlertsRaw tickets nw currentTime) cs)))"

definition monitorRealTimeRaw ::
  "(timestamp \<Rightarrow> int) \<Rightarrow> CauldronDto list \<Rightarrow> HistoricalDataDto list \<Rightarrow> TicketText list \<Rightarrow> timestamp
     \<Rightarrow> MonitoringState \<Rightarrow> CourierDto list option \<Rightarrow> NetworkDto option
     \<Rightarrow> error + Alert list \<times> MonitoringState" where
  "monitorRealTimeRaw tzOffset cauldrons historicalData tickets currentTime state couriers network =
     (case nearest_loop currentTime historicalData None of
        None \<Rightarrow> Inr ([], state)
      | Some currentDataPoint \<Rightarrow>
          let currentLevels = cauldron_levels currentDataPoint;
              dateKey = isoDate currentTime
          in case forEachCauldron
                    (processCauldronRaw historicalData tickets currentTime state currentLevels dateKey)
                    ([], state) cauldrons of
               Inl e \<Rightarrow> Inl e
             | Inr acc \<Rightarrow>
                 let alerts1 = fst acc @ caseH tzOffset cauldrons currentTime dateKey (snd acc)
                 in Inr (alerts1 @ deliveryIntegrityRaw tickets couriers network currentTime, snd acc))"

section \<open>Specification-side notions\<close>

text \<open>
  The slopes the estimator is specified to collect: over the consecutive pairs of the
  window, the pairs whose later sample is not before the cutoff, whose time difference is
  positive and whose level rises, each mapped to level difference over time difference.
\<close>

definition pair_level_rise :: "string \<Rightarrow> HistoricalDataDto \<times> HistoricalDataDto \<Rightarrow> real" where
  "pair_level_rise key pc = get_or (cauldron_levels (snd pc) key) 0 - get_or (cauldron_levels (fst pc) key) 0"

definition pair_minutes :: "HistoricalDataDto \<times> HistoricalDataDto \<Rightarrow> real" where
  "pair_minutes pc = minutes_between (h_timestamp (snd pc)) (h_timestamp (fst pc))"

definition positive_slopes :: "string \<Rightarrow> int \<Rightarrow> HistoricalDataDto list \<Rightarrow> real list" where
  "positive_slopes key cutoff samples =
     map (\<lambda>pc. pair_level_rise key pc / pair_minutes pc)
       (filter (\<lambda>pc. cutoff \<le> h_timestamp (snd pc) \<and> 0 < pair_minutes pc \<and> 0 < pair_level_rise key pc)
          (zip samples (tl samples)))"

text \<open>
  A median of a list of numbers: at least half of the entries are not above it and at
  least half are not below it.
\<close>

definition is_median :: "real \<Rightarrow> real list \<Rightarrow> bool" where
  "is_median m xs =
     (length xs \<le> 2 * length (filter (\<lambda>x. x \<le> m) xs) \<and> length xs \<le> 2 * length (filter (\<lambda>x. m \<le> x) xs))"

text \<open>A ticket is eligible for a drain, in the words of the matching rule.\<close>

definition eligible :: "DrainEvent \<Rightarrow> TicketDto \<Rightarrow> bool" where
  "eligible drainEvent t =
     (case date t of
        None \<Rightarrow> False
      | Some d \<Rightarrow> cauldron_id t = Some (cauldronId drainEvent)
                  \<and> d div 86400000 = timestamp drainEvent div 86400000
                  \<and> \<bar>d - timestamp drainEvent\<bar> \<le> 7200000)"

definition time_distance :: "DrainEvent \<Rightarrow> TicketDto \<Rightarrow> int" where
  "time_distance drainEvent t = (case date t of None \<Rightarrow> 0 | Some d \<Rightarrow> \<bar>d - timestamp drainEvent\<bar>)"

text \<open>
  The record of matched tickets holds every ticket id at most once in each list of a
  vessel and a day.
\<close>

definition ticketsRecordedOnce :: "MonitoringState \<Rightarrow> bool" where
  "ticketsRecordedOnce s =
     (\<forall>cid m dateKey ts. dailyTickets s cid = Some m \<longrightarrow> m dateKey = Some ts \<longrightarrow> distinct (map ticket_id ts))"

text \<open>A vessel the loop over the cauldrons skips.\<close>

definition skipped :: "CauldronDto \<Rightarrow> bool" where
  "skipped cauldron = (\<not> truthy (cauldron_id_of cauldron) \<or> max_volume cauldron = 0)"

text \<open>Every reference of \<open>activeDrains\<close> denotes an object of the store.\<close>

definition wellFormed :: "MonitoringState \<Rightarrow> bool" where
  "wellFormed s = (\<forall>cid r. activeDrains s cid = Some r \<longrightarrow> r < length (drainEvents s))"

text \<open>The kinds of alert that the loop over the cauldrons can raise.\<close>

definition perVesselKinds :: "string set" where
  "perVesselKinds = {''unlogged_event'', ''overreporting'', ''unlogged_drain'', ''drift'', ''clogged_flow'',
                     ''false_ticket'', ''production_stop'', ''overflow'', ''critical_level''}"

section \<open>Scenarios\<close>

text \<open>One vessel of the fleet, a telemetry sample that reports its level, a ticket for it.\<close>

definition vessel :: "real \<Rightarrow> CauldronDto" where
  "vessel capacity = \<lparr>cauldron_id_of = Some ''cauldron_001'', cauldron_name = None, max_volume = capacity\<rparr>"

definition sample :: "timestamp \<Rightarrow> real \<Rightarrow> HistoricalDataDto" where
  "sample t v = \<lparr>h_timestamp = t, cauldron_levels = [''cauldron_001'' \<mapsto> v]\<rparr>"

definition ticket :: "string \<Rightarrow> timestamp \<Rightarrow> real \<Rightarrow> TicketDto" where
  "ticket tid t amount =
     \<lparr>ticket_id = Some tid, cauldron_id = Some ''cauldron_001'', amount_collected = amount,
      courier_id = None, date = Some t\<rparr>"

definition utc :: "timestamp \<Rightarrow> int" where
  "utc t = 0"

text \<open>
  A ticket as a text record, a second vessel of the fleet and a vessel without
  identifier.
\<close>

definition ticket_text :: "string \<Rightarrow> string \<Rightarrow> date_text \<Rightarrow> real \<Rightarrow> TicketText" where
  "ticket_text tid cid d amount =
     \<lparr>text_ticket_id = Some tid, text_cauldron_id = Some cid, text_amount_collected = amount,
      text_courier_id = None, text_date = d\<rparr>"

definition vessel_002 :: "real \<Rightarrow> CauldronDto" where
  "vessel_002 capacity = \<lparr>cauldron_id_of = Some ''cauldron_002'', cauldron_name = None, max_volume = capacity\<rparr>"

definition nameless_vessel :: "real \<Rightarrow> CauldronDto" where
  "nameless_vessel capacity = \<lparr>cauldron_id_of = None, cauldron_name = None, max_volume = capacity\<rparr>"

text \<open>Telemetry with the slopes 1, 1, 1 and 100 per minute.\<close>

definition outlier_telemetry :: "HistoricalDataDto list" where
  "outlier_telemetry = [sample 0 10, sample 60000 11, sample 120000 12, sample 180000 13, sample 240000 113]"

text \<open>
  A drain that starts at minute 1, drops again at minute 6 and has risen at minute 7.
\<close>

definition extended_drain_telemetry :: "HistoricalDataDto list" where
  "extended_drain_telemetry = [sample 0 60, sample 60000 50, sample 360000 40, sample 420000 43]"

text \<open>
  Two drains of 10 units, at minutes 1 and 7 of the day, and one ticket of 10 units at
  minute 0.
\<close>

definition two_drains_telemetry :: "HistoricalDataDto list" where
  "two_drains_telemetry = [sample 0 100, sample 60000 90, sample 360000 90, sample 420000 80, sample 720000 80]"

text \<open>A vessel of capacity 100 that fills by one unit per minute, at 89 and at 90.\<close>

definition filling_telemetry :: "HistoricalDataDto list" where
  "filling_telemetry = [sample 0 89, sample 60000 90]"

text \<open>
  An unticketed drain of 50 units at 23:41, stable from then on, with samples up to
  23:56 of the same day.
\<close>

definition evening_telemetry :: "HistoricalDataDto list" where
  "evening_telemetry =
     [sample 85200000 100, sample 85260000 50, sample 85560000 50, sample 86100000 50, sample 86160000 50]"

text \<open>A level falling by one unit, reported for a vessel of negative capacity.\<close>

definition small_drop_telemetry :: "HistoricalDataDto list" where
  "small_drop_telemetry = [sample 0 50, sample 60000 49, sample 360000 49]"

text \<open>A level of a vessel of capacity 100 that crosses 80 upward, falls back and crosses again.\<close>

definition crossing_telemetry :: "HistoricalDataDto list" where
  "crossing_telemetry = [sample 0 70, sample 60000 85, sample 120000 90, sample 180000 70, sample 240000 85]"

text \<open>A state at the end of a day: 100 units drained, one matched ticket of 90 units.\<close>

definition audited_state :: MonitoringState where
  "audited_state =
     initializeMonitoringState
       \<lparr>dailyDrains := [''cauldron_001'' \<mapsto> [0 \<mapsto> 100]],
        dailyTickets := [''cauldron_001'' \<mapsto> [0 \<mapsto> [ticket ''T1'' 3600000 90]]]\<rparr>"

section \<open>Verification\<close>

text \<open>The equations that evaluate a tick on concrete inputs.\<close>

lemmas tick_eval =
  monitorRealTime_def processCauldron_def ruleA_def finalizeDrain_def closeDrainEvent_def
  storeMatchedTicket_def updateDailyDrains_def recordDiscrepancy_def continueDrain_def continueDrainEvent_def
  startDrain_def getActiveDrain_def caseC_def caseG_def rule6_def criticalLevel_def updateFillRates_def
  caseH_def dailyTotals_def deliveryIntegrity_def detectDrainStart_def detectProductionStop_def
  detectCloggedFlow_def assessDiscrepancy_def matchTicketToDrain_def checkFalseTicket_def
  checkDailyDiscrepancy_def calculateExpectedDrainVolume_def calculateFillRate_def median_sorted_def
  levelKey_def padStart3_def reportedVolume_def
  get_or_def minutes_between_def isoDate_def abs_diff_def truthy_def getHours_def getMinutes_def
  initializeMonitoringState_def TOLERANCE_def DRAIN_STABILIZATION_TIME_def PRODUCTION_STOP_THRESHOLD_def
  PRODUCTION_STOP_DURATION_def ticket_matches_def ticket_distance_def
  discrepancyAlert_def driftAlert_def cloggedFlowAlert_def falseTicketAlert_def productionStopAlert_def
  overflowAlert_def criticalLevelAlert_def auditAlert_def
  vessel_def sample_def ticket_def utc_def Let_def

subsection \<open>Discrepancy assessment\<close>

lemma expected_closeDrainEvent:
  "expectedDrainVolume (closeDrainEvent currentLevel t ad) = expectedDrainVolume ad"
  by (simp add: closeDrainEvent_def Let_def)

text \<open>
  Claim C1.  A finalized drain assessed with the tolerance 2.0 is classified by the decision
  table: without a matched ticket it is an \<^verbatim>\<open>unlogged_event\<close>, critical; with a ticket
  that reports more than 2.0 above the expected volume it is \<^verbatim>\<open>overreporting\<close>, a
  warning; with a ticket that reports more than 2.0 below it is an \<^verbatim>\<open>unlogged_drain\<close>,
  critical; otherwise there is no discrepancy.  When a drain of expected volume 8.0 is
  finalized with a matched ticket of 12.0, the finalization emits exactly one
  \<^verbatim>\<open>overreporting\<close> alert; it is a warning and its details carry the difference 4.0.
\<close>

theorem assessDiscrepancy_decision_table:
  "assessDiscrepancy d None TOLERANCE = Some \<lparr>d_type = ''unlogged_event'', d_severity = Critical\<rparr>
   \<and> (amount_collected t - expectedDrainVolume d > 2 \<longrightarrow>
        assessDiscrepancy d (Some t) TOLERANCE = Some \<lparr>d_type = ''overreporting'', d_severity = Warning\<rparr>)
   \<and> (expectedDrainVolume d - amount_collected t > 2 \<longrightarrow>
        assessDiscrepancy d (Some t) TOLERANCE = Some \<lparr>d_type = ''unlogged_drain'', d_severity = Critical\<rparr>)
   \<and> (\<bar>amount_collected t - expectedDrainVolume d\<bar> \<le> 2 \<longrightarrow> assessDiscrepancy d (Some t) TOLERANCE = None)
   \<and> (expectedDrainVolume d = 8 \<and> amount_collected t = 12
        \<and> matchTicketToDrain (closeDrainEvent currentLevel sinceDrop d) tickets = Some t \<longrightarrow>
        (\<exists>a. filter (\<lambda>a. alert_type a = ''overreporting'')
                (fst (finalizeDrain cauldron cid currentLevel baseline tickets currentTime dateKey r d sinceDrop ([], us))) = [a]
             \<and> alert_severity a = Warning
             \<and> map_of (details a) ''discrepancy'' = Some (Num 4)))"
  by (auto simp add: assessDiscrepancy_def TOLERANCE_def Let_def finalizeDrain_def recordDiscrepancy_def
        expected_closeDrainEvent discrepancyAlert_def driftAlert_def cloggedFlowAlert_def reportedVolume_def)

text \<open>The table and the scenario at a drain of expected volume 8 with tickets of 12, 5 and 10.\<close>

theorem assessDiscrepancy_decision_table_witness:
  "assessDiscrepancy \<lparr>cauldronId = ''cauldron_001'', timestamp = 0, levelBefore = 50, levelAfter = 42,
       expectedDrainVolume = 8, duration = 1, refillRate = None, isActive = True\<rparr> (Some (ticket ''T1'' 0 12)) TOLERANCE
     = Some \<lparr>d_type = ''overreporting'', d_severity = Warning\<rparr>
   \<and> assessDiscrepancy \<lparr>cauldronId = ''cauldron_001'', timestamp = 0, levelBefore = 50, levelAfter = 42,
       expectedDrainVolume = 8, duration = 1, refillRate = None, isActive = True\<rparr> (Some (ticket ''T1'' 0 5)) TOLERANCE
     = Some \<lparr>d_type = ''unlogged_drain'', d_severity = Critical\<rparr>
   \<and> assessDiscrepancy \<lparr>cauldronId = ''cauldron_001'', timestamp = 0, levelBefore = 50, levelAfter = 42,
       expectedDrainVolume = 8, duration = 1, refillRate = None, isActive = True\<rparr> (Some (ticket ''T1'' 0 10)) TOLERANCE
     = None
   \<and> (\<exists>a. filter (\<lambda>a. alert_type a = ''overreporting'')
          (fst (finalizeDrain (vessel 100) ''cauldron_001'' 42 0 [ticket ''T1'' 0 12] 300000 0 0
                 \<lparr>cauldronId = ''cauldron_001'', timestamp = 0, levelBefore = 50, levelAfter = 42,
                    expectedDrainVolume = 8, duration = 1, refillRate = None, isActive = True\<rparr> 5
                 ([], initializeMonitoringState))) = [a]
         \<and> alert_severity a = Warning \<and> map_of (details a) ''discrepancy'' = Some (Num 4))"
proof -
  let ?d = "\<lparr>cauldronId = ''cauldron_001'', timestamp = 0, levelBefore = 50, levelAfter = 42,
       expectedDrainVolume = 8, duration = 1, refillRate = None, isActive = True\<rparr>"
  have m: "matchTicketToDrain (closeDrainEvent 42 5 ?d) [ticket ''T1'' 0 12] = Some (ticket ''T1'' 0 12)"
    by (simp add: matchTicketToDrain_def ticket_matches_def ticket_def closeDrainEvent_def isoDate_def abs_diff_def)
  show ?thesis
    using assessDiscrepancy_decision_table [of ?d "ticket ''T1'' 0 12" 42 5 "[ticket ''T1'' 0 12]"
              "vessel 100" "''cauldron_001''" 0 300000 0 0 initializeMonitoringState]
          assessDiscrepancy_decision_table [of ?d "ticket ''T1'' 0 5"]
          assessDiscrepancy_decision_table [of ?d "ticket ''T1'' 0 10"] m
    by (simp add: ticket_def)
qed

subsection \<open>Drain conservation\<close>

text \<open>
  Claim C7.  \<^verbatim>\<open>calculateExpectedDrainVolume\<close> returns the level drop plus fill rate times
  duration, and a tick on which the drop condition holds leaves the vessel with an active
  drain whose expected volume is \<open>(level_before - level_after) + fill_rate * duration\<close>
  for the fill rate of that tick: a new drain has the previous level as its level before
  and the duration 1, an extended drain keeps its level before and has its duration
  increased by 1.
\<close>

theorem drain_conservation:
  "calculateExpectedDrainVolume L0 L1 rate d = (L0 - L1) + rate * d
   \<and> (detectDrainStart cauldron previousLevel currentLevel \<longrightarrow>
        (\<exists>r e. getActiveDrain (snd (ruleA cauldron cid previousLevel currentLevel fillRate baseline tickets
                                     currentTime dateKey acc)) cid = Some (r, e)
           \<and> expectedDrainVolume e = (levelBefore e - levelAfter e) + fillRate * duration e
           \<and> levelAfter e = currentLevel
           \<and> (case getActiveDrain (snd acc) cid of
                 None \<Rightarrow> levelBefore e = previousLevel \<and> duration e = 1
               | Some (r0, e0) \<Rightarrow> r = r0 \<and> levelBefore e = levelBefore e0 \<and> duration e = duration e0 + 1)))"
  by (auto simp add: calculateExpectedDrainVolume_def ruleA_def getActiveDrain_def startDrain_def
        continueDrain_def continueDrainEvent_def Let_def split: option.splits if_splits)

text \<open>A drop from 60 to 50 at fill rate 3 opens a drain of expected volume 13.\<close>

theorem drain_conservation_witness:
  "detectDrainStart (vessel 100) 60 50
   \<and> (\<exists>r e. getActiveDrain (snd (ruleA (vessel 100) ''cauldron_001'' 60 50 3 3 [] 60000 0
                                     ([], initializeMonitoringState))) ''cauldron_001'' = Some (r, e)
           \<and> expectedDrainVolume e = (levelBefore e - levelAfter e) + 3 * duration e
           \<and> levelAfter e = 50 \<and> levelBefore e = 60 \<and> duration e = 1)"
proof -
  have h: "detectDrainStart (vessel 100) 60 50"
    by (simp add: detectDrainStart_def vessel_def truthy_def)
  have n: "getActiveDrain (snd ([], initializeMonitoringState)) ''cauldron_001'' = None"
    by (simp add: getActiveDrain_def initializeMonitoringState_def)
  show ?thesis
    using h n drain_conservation [of 0 0 0 0 "vessel 100" 60 50 "''cauldron_001''" 3 3 "[]" 60000 0
                "([], initializeMonitoringState)"]
    by auto
qed

subsection \<open>The fill-rate estimator\<close>

lemma slope_loop_spec:
  "slope_loop key cutoff prev rest acc = acc @ positive_slopes key cutoff (prev # rest)"
proof (induction rest arbitrary: prev acc)
  case Nil
  show ?case by (simp add: positive_slopes_def)
next
  case (Cons curr rest)
  have step: "positive_slopes key cutoff (prev # curr # rest) =
        (if cutoff \<le> h_timestamp curr \<and> 0 < pair_minutes (prev, curr) \<and> 0 < pair_level_rise key (prev, curr)
         then [pair_level_rise key (prev, curr) / pair_minutes (prev, curr)] else [])
        @ positive_slopes key cutoff (curr # rest)"
    by (simp add: positive_slopes_def)
  show ?case
    unfolding step
    by (simp add: Cons.IH Let_def pair_minutes_def pair_level_rise_def not_less)
qed

lemma filter_length_mono:
  "(\<And>x. x \<in> set xs \<Longrightarrow> P x \<Longrightarrow> Q x) \<Longrightarrow> length (filter P xs) \<le> length (filter Q xs)"
  by (induction xs) auto

lemma count_le_nth:
  fixes s :: "real list"
  assumes "sorted s" "i < length s"
  shows "Suc i \<le> length (filter (\<lambda>x. x \<le> s ! i) s)"
proof -
  have all: "\<forall>x \<in> set (take (Suc i) s). x \<le> s ! i"
  proof
    fix x assume "x \<in> set (take (Suc i) s)"
    then obtain j where "j < Suc i" "j < length s" "x = s ! j"
      by (auto simp add: in_set_conv_nth)
    then show "x \<le> s ! i" using assms by (auto intro: sorted_nth_mono)
  qed
  have "filter (\<lambda>x. x \<le> s ! i) s
        = filter (\<lambda>x. x \<le> s ! i) (take (Suc i) s) @ filter (\<lambda>x. x \<le> s ! i) (drop (Suc i) s)"
    by (metis append_take_drop_id filter_append)
  moreover have "filter (\<lambda>x. x \<le> s ! i) (take (Suc i) s) = take (Suc i) s"
    using all by (simp add: filter_id_conv)
  ultimately have "length (filter (\<lambda>x. x \<le> s ! i) s) \<ge> length (take (Suc i) s)"
    by simp
  then show ?thesis using assms by simp
qed

lemma count_ge_nth:
  fixes s :: "real list"
  assumes "sorted s" "i < length s"
  shows "length s - i \<le> length (filter (\<lambda>x. s ! i \<le> x) s)"
proof -
  have all: "\<forall>x \<in> set (drop i s). s ! i \<le> x"
  proof
    fix x assume "x \<in> set (drop i s)"
    then obtain j where "j < length s - i" "x = s ! (i + j)"
      by (auto simp add: in_set_conv_nth)
    then show "s ! i \<le> x" using assms by (auto intro: sorted_nth_mono)
  qed
  have "filter (\<lambda>x. s ! i \<le> x) s
        = filter (\<lambda>x. s ! i \<le> x) (take i s) @ filter (\<lambda>x. s ! i \<le> x) (drop i s)"
    by (metis append_take_drop_id filter_append)
  moreover have "filter (\<lambda>x. s ! i \<le> x) (drop i s) = drop i s"
    using all by (simp add: filter_id_conv)
  ultimately have "length (filter (\<lambda>x. s ! i \<le> x) s) \<ge> length (drop i s)"
    by simp
  then show ?thesis by simp
qed

lemma median_sorted_is_median:
  fixes s :: "real list"
  assumes srt: "sorted s" and ne: "s \<noteq> []"
  shows "is_median (median_sorted s) s"
proof (cases "length s mod 2 = 0")
  case False
  let ?mid = "length s div 2"
  have mid: "?mid < length s" using ne by simp
  have m: "median_sorted s = s ! ?mid" using False by (simp add: median_sorted_def Let_def)
  have "Suc ?mid \<le> length (filter (\<lambda>x. x \<le> s ! ?mid) s)" by (rule count_le_nth [OF srt mid])
  moreover have "length s - ?mid \<le> length (filter (\<lambda>x. s ! ?mid \<le> x) s)" by (rule count_ge_nth [OF srt mid])
  ultimately show ?thesis unfolding is_median_def m by linarith
next
  case True
  let ?mid = "length s div 2"
  have pos: "0 < ?mid" using ne True by (cases s) auto
  have mid: "?mid < length s" using ne by simp
  have lo: "?mid - 1 < length s" using mid by simp
  have m: "median_sorted s = (s ! (?mid - 1) + s ! ?mid) / 2" using True by (simp add: median_sorted_def Let_def)
  have ord: "s ! (?mid - 1) \<le> s ! ?mid" using srt mid by (auto intro: sorted_nth_mono)
  have le_m: "s ! (?mid - 1) \<le> median_sorted s" and m_le: "median_sorted s \<le> s ! ?mid"
    using ord unfolding m by simp_all
  have "Suc (?mid - 1) \<le> length (filter (\<lambda>x. x \<le> s ! (?mid - 1)) s)" by (rule count_le_nth [OF srt lo])
  also have "\<dots> \<le> length (filter (\<lambda>x. x \<le> median_sorted s) s)"
    using le_m by (intro filter_length_mono) simp
  finally have a: "?mid \<le> length (filter (\<lambda>x. x \<le> median_sorted s) s)" using pos by simp
  have "length s - ?mid \<le> length (filter (\<lambda>x. s ! ?mid \<le> x) s)" by (rule count_ge_nth [OF srt mid])
  also have "\<dots> \<le> length (filter (\<lambda>x. median_sorted s \<le> x) s)"
    using m_le by (intro filter_length_mono) simp
  finally have b: "length s - ?mid \<le> length (filter (\<lambda>x. median_sorted s \<le> x) s)" .
  show ?thesis unfolding is_median_def using a b True by presburger
qed

lemma is_median_sort: "is_median m (sort xs) = is_median m xs"
  by (simp add: is_median_def filter_sort)

lemma positive_slopes_positive: "x \<in> set (positive_slopes key cutoff samples) \<Longrightarrow> 0 < x"
  by (auto simp add: positive_slopes_def)

lemma levelKey_cauldron_001: "levelKey ''cauldron_001'' = ''cauldron_001''"
  by (simp add: levelKey_def padStart3_def)

lemma outlier_fill_rate: "calculateFillRate ''cauldron_001'' outlier_telemetry 60 = 1"
  by (simp add: calculateFillRate_def outlier_telemetry_def sample_def levelKey_cauldron_001 get_or_def
        minutes_between_def median_sorted_def Let_def cong: let_weak_cong)

text \<open>
  Claim C4.  \<^verbatim>\<open>calculateFillRate\<close> returns 0 for fewer than two samples; otherwise it
  returns 0 when the window has no positive slope and else the median of the positive
  slopes of the consecutive pairs of the lookback window, taken from the sorted slopes,
  which is a median in the sense that half of the slopes lie on either side.  Only pairs
  with a positive time difference and a rising level contribute, so every slope counted
  is positive and the result is not negative.  For the slopes 1, 1, 1 and 100 per minute
  the result is 1.
\<close>

theorem calculateFillRate_median:
  "(length samples < 2 \<longrightarrow> calculateFillRate cid samples lookback = 0)
   \<and> (2 \<le> length samples \<longrightarrow>
        calculateFillRate cid samples lookback =
          (if positive_slopes (levelKey cid) (h_timestamp (last samples) - lookback * 60 * 1000) samples = [] then 0
           else median_sorted (sort (positive_slopes (levelKey cid) (h_timestamp (last samples) - lookback * 60 * 1000) samples)))
        \<and> (positive_slopes (levelKey cid) (h_timestamp (last samples) - lookback * 60 * 1000) samples \<noteq> [] \<longrightarrow>
              is_median (calculateFillRate cid samples lookback)
                (positive_slopes (levelKey cid) (h_timestamp (last samples) - lookback * 60 * 1000) samples)))
   \<and> (\<forall>x \<in> set (positive_slopes (levelKey cid) (h_timestamp (last samples) - lookback * 60 * 1000) samples). 0 < x)
   \<and> 0 \<le> calculateFillRate cid samples lookback
   \<and> positive_slopes ''cauldron_001'' (240000 - 60 * 60000) outlier_telemetry = [1, 1, 1, 100]
   \<and> calculateFillRate ''cauldron_001'' outlier_telemetry 60 = 1"
proof -
  let ?S = "positive_slopes (levelKey cid) (h_timestamp (last samples) - lookback * 60 * 1000) samples"
  have short: "length samples < 2 \<Longrightarrow> calculateFillRate cid samples lookback = 0"
    by (simp add: calculateFillRate_def)
  have long: "calculateFillRate cid samples lookback = (if ?S = [] then 0 else median_sorted (sort ?S))"
    if "2 \<le> length samples"
  proof -
    from that have "samples \<noteq> []" by auto
    then have hdtl: "hd samples # tl samples = samples" by simp
    from that have "\<not> length samples < 2" by simp
    then show ?thesis
      unfolding calculateFillRate_def Let_def slope_loop_spec hdtl by simp
  qed
  have med: "is_median (calculateFillRate cid samples lookback) ?S" if "2 \<le> length samples" "?S \<noteq> []"
  proof -
    have "is_median (median_sorted (sort ?S)) (sort ?S)"
    proof (rule median_sorted_is_median)
      show "sorted (sort ?S)" by simp
      have "length (sort ?S) = length ?S" by simp
      then show "sort ?S \<noteq> []" using that(2) by (metis length_0_conv)
    qed
    then show ?thesis using that long by (simp add: is_median_sort)
  qed
  have pos: "\<forall>x \<in> set ?S. 0 < x" by (auto dest: positive_slopes_positive)
  have nonneg: "0 \<le> calculateFillRate cid samples lookback"
  proof (cases "2 \<le> length samples \<and> ?S \<noteq> []")
    case False
    then show ?thesis using short long by (cases "2 \<le> length samples") auto
  next
    case True
    then have im: "is_median (calculateFillRate cid samples lookback) ?S" using med by simp
    show ?thesis
    proof (rule ccontr)
      assume "\<not> 0 \<le> calculateFillRate cid samples lookback"
      then have "filter (\<lambda>x. x \<le> calculateFillRate cid samples lookback) ?S = []"
        using pos by (auto simp add: filter_empty_conv)
      then show False using im True by (simp add: is_median_def)
    qed
  qed
  have ex: "positive_slopes ''cauldron_001'' (240000 - 60 * 60000) outlier_telemetry = [1, 1, 1, 100]"
    by (simp add: positive_slopes_def outlier_telemetry_def sample_def pair_minutes_def pair_level_rise_def
          get_or_def minutes_between_def)
  show ?thesis using short long med pos nonneg ex outlier_fill_rate by blast
qed

text \<open>
  One sample; the telemetry with the outlier; a pair of samples with equal timestamps,
  which is not counted.
\<close>

theorem calculateFillRate_median_witness:
  "length [sample 0 10] < 2 \<and> calculateFillRate ''cauldron_001'' [sample 0 10] 60 = 0
   \<and> 2 \<le> length outlier_telemetry
   \<and> positive_slopes (levelKey ''cauldron_001'') (h_timestamp (last outlier_telemetry) - 60 * 60 * 1000)
         outlier_telemetry = [1, 1, 1, 100]
   \<and> calculateFillRate ''cauldron_001'' outlier_telemetry 60 = median_sorted (sort [1, 1, 1, 100])
   \<and> is_median (calculateFillRate ''cauldron_001'' outlier_telemetry 60) [1, 1, 1, 100]
   \<and> 2 \<le> length [sample 0 10, sample 0 20, sample 60000 21]
   \<and> positive_slopes (levelKey ''cauldron_001'') (h_timestamp (last [sample 0 10, sample 0 20, sample 60000 21]) - 60 * 60 * 1000)
         [sample 0 10, sample 0 20, sample 60000 21] = [1]
   \<and> calculateFillRate ''cauldron_001'' [sample 0 10, sample 0 20, sample 60000 21] 60 = 1"
proof -
  have s1: "positive_slopes (levelKey ''cauldron_001'') (h_timestamp (last outlier_telemetry) - 60 * 60 * 1000)
         outlier_telemetry = [1, 1, 1, 100]"
    by (simp add: positive_slopes_def outlier_telemetry_def sample_def pair_minutes_def pair_level_rise_def
          get_or_def minutes_between_def levelKey_cauldron_001)
  have s2: "positive_slopes (levelKey ''cauldron_001'') (h_timestamp (last [sample 0 10, sample 0 20, sample 60000 21]) - 60 * 60 * 1000)
         [sample 0 10, sample 0 20, sample 60000 21] = [1]"
    by (simp add: positive_slopes_def sample_def pair_minutes_def pair_level_rise_def
          get_or_def minutes_between_def levelKey_cauldron_001)
  have l1: "2 \<le> length outlier_telemetry" by (simp add: outlier_telemetry_def)
  have m: "median_sorted (sort [1::real]) = 1" by (simp add: median_sorted_def)
  show ?thesis
    using calculateFillRate_median [of "[sample 0 10]" "''cauldron_001''" 60]
          calculateFillRate_median [of outlier_telemetry "''cauldron_001''" 60]
          calculateFillRate_median [of "[sample 0 10, sample 0 20, sample 60000 21]" "''cauldron_001''" 60]
          s1 s2 l1 m
    by simp
qed

subsection \<open>The ticket matcher\<close>

lemma hd_insort_key:
  "hd (insort_key f x ys) = (if ys = [] \<or> f x \<le> f (hd ys) then x else hd ys)"
  by (cases ys) auto

lemma hd_sort_key_first_least:
  "xs \<noteq> [] \<Longrightarrow>
     hd (sort_key f xs) \<in> set xs
     \<and> (\<forall>v \<in> set xs. f (hd (sort_key f xs)) \<le> f v)
     \<and> find (\<lambda>u. f u \<le> f (hd (sort_key f xs))) xs = Some (hd (sort_key f xs))"
proof (induction xs)
  case Nil
  then show ?case by simp
next
  case (Cons x xs)
  show ?case
  proof (cases "xs = []")
    case True
    then show ?thesis by simp
  next
    case False
    let ?h = "hd (sort_key f xs)"
    from Cons.IH [OF False] have mem: "?h \<in> set xs" and least: "\<forall>v \<in> set xs. f ?h \<le> f v"
      and first: "find (\<lambda>u. f u \<le> f ?h) xs = Some ?h" by simp_all
    have ne: "sort_key f xs \<noteq> []" using False by (metis length_0_conv length_sort)
    show ?thesis
    proof (cases "f x \<le> f ?h")
      case True
      then have "hd (sort_key f (x # xs)) = x" by (simp add: hd_insort_key)
      moreover have "\<forall>v \<in> set xs. f x \<le> f v" using True least by auto
      ultimately show ?thesis by simp
    next
      case Gt: False
      then have "hd (sort_key f (x # xs)) = ?h" using ne by (simp add: hd_insort_key)
      moreover have "f ?h \<le> f x" using Gt by simp
      ultimately show ?thesis using mem least first Gt by simp
    qed
  qed
qed

lemma find_filter: "find Q (filter E xs) = find (\<lambda>x. E x \<and> Q x) xs"
  by (induction xs) auto

lemma find_pred_cong: "(\<And>x. x \<in> set xs \<Longrightarrow> P x = Q x) \<Longrightarrow> find P xs = find Q xs"
  by (induction xs) auto

lemma ticket_matches_eligible: "ticket_matches d t = eligible d t"
  by (auto simp add: ticket_matches_def eligible_def isoDate_def abs_diff_def split: option.splits)

lemma ticket_distance_time_distance: "eligible d t \<Longrightarrow> ticket_distance d t = time_distance d t"
  by (simp add: ticket_distance_def time_distance_def eligible_def abs_diff_def split: option.splits)

lemma matchTicketToDrain_find:
  "matchTicketToDrain d tickets =
     find (\<lambda>t. eligible d t \<and> (\<forall>u \<in> set tickets. eligible d u \<longrightarrow> time_distance d t \<le> time_distance d u)) tickets"
proof (cases "filter (eligible d) tickets = []")
  case True
  then have none: "\<forall>t \<in> set tickets. \<not> eligible d t" by (simp add: filter_empty_conv)
  have "matchTicketToDrain d tickets = None"
    using True by (simp add: matchTicketToDrain_def Let_def ticket_matches_eligible [abs_def])
  moreover have "find (\<lambda>t. eligible d t \<and> (\<forall>u \<in> set tickets. eligible d u \<longrightarrow> time_distance d t \<le> time_distance d u)) tickets = None"
    using none by (simp add: find_None_iff)
  ultimately show ?thesis by simp
next
  case False
  let ?M = "filter (eligible d) tickets"
  let ?h = "hd (sort_key (ticket_distance d) ?M)"
  from hd_sort_key_first_least [OF False, of "ticket_distance d"]
  have mem: "?h \<in> set ?M" and least: "\<forall>v \<in> set ?M. ticket_distance d ?h \<le> ticket_distance d v"
    and first: "find (\<lambda>u. ticket_distance d u \<le> ticket_distance d ?h) ?M = Some ?h" by simp_all
  have least': "\<forall>v \<in> set tickets. eligible d v \<longrightarrow> time_distance d ?h \<le> time_distance d v"
    using mem least by (auto simp add: ticket_distance_time_distance)
  have res: "matchTicketToDrain d tickets = Some ?h"
    using False
    by (simp add: matchTicketToDrain_def Let_def ticket_matches_eligible [abs_def])
  have "find (\<lambda>t. eligible d t \<and> (\<forall>u \<in> set tickets. eligible d u \<longrightarrow> time_distance d t \<le> time_distance d u)) tickets
        = find (\<lambda>t. eligible d t \<and> ticket_distance d t \<le> ticket_distance d ?h) tickets"
  proof (rule find_pred_cong)
    fix x assume "x \<in> set tickets"
    show "(eligible d x \<and> (\<forall>u \<in> set tickets. eligible d u \<longrightarrow> time_distance d x \<le> time_distance d u))
          = (eligible d x \<and> ticket_distance d x \<le> ticket_distance d ?h)"
    proof (cases "eligible d x")
      case False
      then show ?thesis by simp
    next
      case True
      have eh: "eligible d ?h" and ht: "?h \<in> set tickets" using mem by simp_all
      have "(\<forall>u \<in> set tickets. eligible d u \<longrightarrow> time_distance d x \<le> time_distance d u)
            = (time_distance d x \<le> time_distance d ?h)"
        using least' eh ht by (meson order_trans)
      then show ?thesis using True eh by (simp add: ticket_distance_time_distance)
    qed
  qed
  also have "\<dots> = Some ?h" using first by (simp add: find_filter)
  finally show ?thesis using res by simp
qed



subsection \<open>The alerts and the state of a tick\<close>

lemma assessDiscrepancy_kinds:
  "assessDiscrepancy d m tol = Some x \<Longrightarrow> d_type x \<in> {''unlogged_event'', ''overreporting'', ''unlogged_drain''}"
  by (auto simp add: assessDiscrepancy_def Let_def split: option.splits if_splits)

lemma recordDiscrepancy_kinds:
  "alert_type ` set (fst (recordDiscrepancy c cid t d m acc)) \<subseteq> alert_type ` set (fst acc) \<union> perVesselKinds"
proof (cases "assessDiscrepancy d m TOLERANCE")
  case None
  then show ?thesis by (simp add: recordDiscrepancy_def)
next
  case (Some x)
  from assessDiscrepancy_kinds [OF Some] have "d_type x \<in> perVesselKinds"
    by (auto simp add: perVesselKinds_def)
  then show ?thesis using Some
    by (auto simp add: recordDiscrepancy_def Let_def discrepancyAlert_def driftAlert_def perVesselKinds_def)
qed

lemma finalizeDrain_kinds:
  "alert_type ` set (fst (finalizeDrain c cid lvl base tickets t dk r ad since acc))
     \<subseteq> alert_type ` set (fst acc) \<union> perVesselKinds"
proof -
  have "alert_type ` set (fst (recordDiscrepancy c cid t (closeDrainEvent lvl since ad)
            (matchTicketToDrain (closeDrainEvent lvl since ad) tickets)
            (fst acc, (snd acc)\<lparr>drainEvents := (drainEvents (snd acc))[r := closeDrainEvent lvl since ad]\<rparr>)))
        \<subseteq> alert_type ` set (fst acc) \<union> perVesselKinds"
    using recordDiscrepancy_kinds [of c cid t _ _ "(fst acc, _)"] by simp
  then show ?thesis
    by (auto simp add: finalizeDrain_def Let_def cloggedFlowAlert_def perVesselKinds_def)
qed

lemma ruleA_kinds:
  "alert_type ` set (fst (ruleA c cid prev lvl fr base tickets t dk acc))
     \<subseteq> alert_type ` set (fst acc) \<union> perVesselKinds"
  using finalizeDrain_kinds [of c cid lvl base tickets t dk _ _ _ acc]
  by (auto simp add: ruleA_def Let_def split: option.splits)

lemma caseC_kinds: "alert_type ` set (caseC c cid tickets t us) \<subseteq> perVesselKinds"
  by (auto simp add: caseC_def Let_def falseTicketAlert_def perVesselKinds_def)

lemma caseG_kinds:
  "alert_type ` set (fst (caseG c cid lvl prev fr t acc)) \<subseteq> alert_type ` set (fst acc) \<union> perVesselKinds"
  by (auto simp add: caseG_def Let_def productionStopAlert_def perVesselKinds_def)

lemma rule6_kinds:
  "alert_type ` set (fst (rule6 c cid lvl fr t acc)) \<subseteq> alert_type ` set (fst acc) \<union> perVesselKinds"
  by (auto simp add: rule6_def Let_def overflowAlert_def perVesselKinds_def)

lemma criticalLevel_kinds:
  "alert_type ` set (fst (criticalLevel c cid lvl prev t acc)) \<subseteq> alert_type ` set (fst acc) \<union> perVesselKinds"
  by (auto simp add: criticalLevel_def Let_def criticalLevelAlert_def perVesselKinds_def)

lemma processCauldron_kinds:
  "alert_type ` set (fst (processCauldron hist tickets t state levels dk acc c))
     \<subseteq> alert_type ` set (fst acc) \<union> perVesselKinds"
proof (cases "cauldron_id_of c")
  case None
  then show ?thesis by (simp add: processCauldron_def)
next
  case (Some cid)
  show ?thesis
  proof (cases "cid = [] \<or> max_volume c = 0")
    case True
    then show ?thesis using Some by (auto simp add: processCauldron_def)
  next
    case False
    define lvl where "lvl = get_or (levels (levelKey cid)) 0"
    define prev where "prev = get_or (lastLevels state cid) lvl"
    define fr where "fr = calculateFillRate cid hist 60"
    define base where "base = get_or (baselineFillRates (snd acc) cid) fr"
    define acc1 where "acc1 = (fst acc, updateFillRates cid fr (snd acc))"
    define acc2 where "acc2 = ruleA c cid prev lvl fr base tickets t dk acc1"
    define acc3 where "acc3 = (fst acc2 @ caseC c cid tickets t (snd acc2), snd acc2)"
    define acc4 where "acc4 = caseG c cid lvl prev fr t acc3"
    define acc5 where "acc5 = rule6 c cid lvl fr t acc4"
    define acc6 where "acc6 = criticalLevel c cid lvl prev t acc5"
    have res: "fst (processCauldron hist tickets t state levels dk acc c) = fst acc6"
      unfolding processCauldron_def Let_def acc6_def acc5_def acc4_def acc3_def acc2_def acc1_def
            base_def fr_def prev_def lvl_def
      using Some False by simp
    have k1: "alert_type ` set (fst acc1) \<subseteq> alert_type ` set (fst acc) \<union> perVesselKinds"
      by (simp add: acc1_def)
    have "alert_type ` set (fst acc2) \<subseteq> alert_type ` set (fst acc1) \<union> perVesselKinds"
      unfolding acc2_def by (rule ruleA_kinds)
    with k1 have k2: "alert_type ` set (fst acc2) \<subseteq> alert_type ` set (fst acc) \<union> perVesselKinds"
      by blast
    have "alert_type ` set (fst acc3) \<subseteq> alert_type ` set (fst acc2) \<union> perVesselKinds"
      using caseC_kinds [of c cid tickets t "snd acc2"] by (auto simp add: acc3_def)
    with k2 have k3: "alert_type ` set (fst acc3) \<subseteq> alert_type ` set (fst acc) \<union> perVesselKinds"
      by blast
    have "alert_type ` set (fst acc4) \<subseteq> alert_type ` set (fst acc3) \<union> perVesselKinds"
      unfolding acc4_def by (rule caseG_kinds)
    with k3 have k4: "alert_type ` set (fst acc4) \<subseteq> alert_type ` set (fst acc) \<union> perVesselKinds"
      by blast
    have "alert_type ` set (fst acc5) \<subseteq> alert_type ` set (fst acc4) \<union> perVesselKinds"
      unfolding acc5_def by (rule rule6_kinds)
    with k4 have k5: "alert_type ` set (fst acc5) \<subseteq> alert_type ` set (fst acc) \<union> perVesselKinds"
      by blast
    have "alert_type ` set (fst acc6) \<subseteq> alert_type ` set (fst acc5) \<union> perVesselKinds"
      unfolding acc6_def by (rule criticalLevel_kinds)
    with k5 have k6: "alert_type ` set (fst acc6) \<subseteq> alert_type ` set (fst acc) \<union> perVesselKinds"
      by blast
    show ?thesis unfolding res by (rule k6)
  qed
qed

lemma foldl_processCauldron_kinds:
  "alert_type ` set (fst (foldl (processCauldron hist tickets t state levels dk) acc cs))
     \<subseteq> alert_type ` set (fst acc) \<union> perVesselKinds"
proof (induction cs arbitrary: acc)
  case Nil
  show ?case by simp
next
  case (Cons c cs)
  show ?case
    using Cons.IH [of "processCauldron hist tickets t state levels dk acc c"]
          processCauldron_kinds [of hist tickets t state levels dk acc c]
    by auto
qed

lemma audit_not_perVessel: "''audit'' \<notin> perVesselKinds"
  by (simp add: perVesselKinds_def)

lemma caseH_audit: "filter (\<lambda>a. alert_type a = ''audit'') (caseH tz cs t dk us) = caseH tz cs t dk us"
  by (simp add: caseH_def Let_def auditAlert_def)

lemma deliveryIntegrity_kind: "a \<in> set (deliveryIntegrity tickets couriers network t) \<Longrightarrow> alert_type a = ''delivery_delay''"
  by (auto simp add: deliveryIntegrity_def courierAlerts_def deliveryDelayAlert_def Let_def
        split: option.splits if_splits)

lemma filter_none: "(\<And>a. a \<in> set xs \<Longrightarrow> \<not> P a) \<Longrightarrow> filter P xs = []"
  by (simp add: filter_empty_conv)

lemma monitorRealTime_audit:
  "filter (\<lambda>a. alert_type a = ''audit'') (fst (monitorRealTime tz cs hist tickets t state couriers network))
   = (if nearest_loop t hist None = None then []
      else caseH tz cs t (isoDate t) (snd (monitorRealTime tz cs hist tickets t state couriers network)))"
proof (cases "nearest_loop t hist None")
  case None
  then show ?thesis by (simp add: monitorRealTime_def)
next
  case (Some p)
  let ?acc = "foldl (processCauldron hist tickets t state (cauldron_levels p) (isoDate t)) ([], state) cs"
  have "alert_type ` set (fst ?acc) \<subseteq> perVesselKinds"
    using foldl_processCauldron_kinds [of hist tickets t state "cauldron_levels p" "isoDate t" "([], state)" cs]
    by simp
  then have a: "filter (\<lambda>a. alert_type a = ''audit'') (fst ?acc) = []"
    using audit_not_perVessel by (intro filter_none) auto
  have b: "filter (\<lambda>a. alert_type a = ''audit'') (deliveryIntegrity tickets couriers network t) = []"
    by (intro filter_none) (auto dest: deliveryIntegrity_kind)
  show ?thesis using Some a b
    by (simp add: monitorRealTime_def Let_def caseH_audit)
qed

lemma updateFillRates_frame:
  "drainEvents (updateFillRates cid fr us) = drainEvents us"
  "activeDrains (updateFillRates cid fr us) = activeDrains us"
  "dailyTickets (updateFillRates cid fr us) = dailyTickets us"
  by (simp_all add: updateFillRates_def Let_def)

lemma caseG_frame:
  "drainEvents (snd (caseG c cid lvl prev fr t acc)) = drainEvents (snd acc)"
  "activeDrains (snd (caseG c cid lvl prev fr t acc)) = activeDrains (snd acc)"
  "dailyTickets (snd (caseG c cid lvl prev fr t acc)) = dailyTickets (snd acc)"
  by (simp_all add: caseG_def Let_def)

lemma rule6_frame:
  "drainEvents (snd (rule6 c cid lvl fr t acc)) = drainEvents (snd acc)"
  "activeDrains (snd (rule6 c cid lvl fr t acc)) = activeDrains (snd acc)"
  "dailyTickets (snd (rule6 c cid lvl fr t acc)) = dailyTickets (snd acc)"
  by (simp_all add: rule6_def Let_def)

lemma criticalLevel_frame:
  "drainEvents (snd (criticalLevel c cid lvl prev t acc)) = drainEvents (snd acc)"
  "activeDrains (snd (criticalLevel c cid lvl prev t acc)) = activeDrains (snd acc)"
  "dailyTickets (snd (criticalLevel c cid lvl prev t acc)) = dailyTickets (snd acc)"
  by (simp_all add: criticalLevel_def Let_def)

lemma recordDiscrepancy_frame:
  "drainEvents (snd (recordDiscrepancy c cid t d m acc)) = drainEvents (snd acc)"
  "activeDrains (snd (recordDiscrepancy c cid t d m acc)) = activeDrains (snd acc)"
  "dailyTickets (snd (recordDiscrepancy c cid t d m acc)) = dailyTickets (snd acc)"
  by (simp_all add: recordDiscrepancy_def Let_def split: option.splits)

lemma updateDailyDrains_frame:
  "drainEvents (updateDailyDrains cid dk d us) = drainEvents us"
  "activeDrains (updateDailyDrains cid dk d us) = activeDrains us"
  "dailyTickets (updateDailyDrains cid dk d us) = dailyTickets us"
  by (simp_all add: updateDailyDrains_def Let_def)

lemma storeMatchedTicket_frame:
  "drainEvents (storeMatchedTicket cid dk m us) = drainEvents us"
  "activeDrains (storeMatchedTicket cid dk m us) = activeDrains us"
  by (simp_all add: storeMatchedTicket_def Let_def split: option.splits)

lemma find_None_distinct:
  "find (\<lambda>t. ticket_id t = ticket_id mt) ts = None \<Longrightarrow> distinct (map ticket_id ts)
     \<Longrightarrow> distinct (map ticket_id (ts @ [mt]))"
  by (auto simp add: find_None_iff)

lemma storeMatchedTicket_once:
  assumes "ticketsRecordedOnce us"
  shows "ticketsRecordedOnce (storeMatchedTicket cid dk m us)"
proof (cases m)
  case None
  then show ?thesis using assms by (simp add: storeMatchedTicket_def)
next
  case (Some mt)
  define tmap where "tmap = (case dailyTickets us cid of None \<Rightarrow> Map.empty | Some m \<Rightarrow> m)"
  define day where "day = (case tmap dk of None \<Rightarrow> [] | Some ts \<Rightarrow> ts)"
  have dday: "distinct (map ticket_id day)"
    using assms by (auto simp add: day_def tmap_def ticketsRecordedOnce_def split: option.splits)
  have old: "\<And>k ts. tmap k = Some ts \<Longrightarrow> distinct (map ticket_id ts)"
    using assms by (auto simp add: tmap_def ticketsRecordedOnce_def split: option.splits)
  show ?thesis
  proof (cases "find (\<lambda>t. ticket_id t = ticket_id mt) day = None")
    case False
    then have "storeMatchedTicket cid dk m us = us" using Some
      by (auto simp add: storeMatchedTicket_def Let_def day_def tmap_def)
    then show ?thesis using assms by simp
  next
    case True
    have eq: "storeMatchedTicket cid dk m us
              = us\<lparr>dailyTickets := (dailyTickets us)(cid \<mapsto> tmap(dk \<mapsto> day @ [mt]))\<rparr>"
      using True Some by (simp add: storeMatchedTicket_def Let_def day_def tmap_def)
    have new: "distinct (map ticket_id (day @ [mt]))"
      using True dday by (rule find_None_distinct)
    show ?thesis
      unfolding eq ticketsRecordedOnce_def
    proof (intro allI impI)
      fix cid' m' dk' ts
      assume a: "dailyTickets (us\<lparr>dailyTickets := (dailyTickets us)(cid \<mapsto> tmap(dk \<mapsto> day @ [mt]))\<rparr>) cid' = Some m'"
        and b: "m' dk' = Some ts"
      show "distinct (map ticket_id ts)"
      proof (cases "cid' = cid")
        case False
        then show ?thesis using a b assms by (auto simp add: ticketsRecordedOnce_def)
      next
        case True
        then have m': "m' = tmap(dk \<mapsto> day @ [mt])" using a by simp
        show ?thesis
        proof (cases "dk' = dk")
          case True
          then show ?thesis using b m' new by simp
        next
          case False
          then show ?thesis using b m' old by simp
        qed
      qed
    qed
  qed
qed

lemma finalizeDrain_once:
  assumes "ticketsRecordedOnce (snd acc)"
  shows "ticketsRecordedOnce (snd (finalizeDrain c cid lvl base tickets t dk r ad since acc))"
proof -
  define closed where "closed = closeDrainEvent lvl since ad"
  define m where "m = matchTicketToDrain closed tickets"
  define acc2 where "acc2 = recordDiscrepancy c cid t closed m (fst acc, (snd acc)\<lparr>drainEvents := (drainEvents (snd acc))[r := closed]\<rparr>)"
  define us3 where "us3 = updateDailyDrains cid dk closed (snd acc2)"
  define us4 where "us4 = storeMatchedTicket cid dk m us3"
  have res: "snd (finalizeDrain c cid lvl base tickets t dk r ad since acc)
             = us4\<lparr>activeDrains := (activeDrains us4)(cid := None)\<rparr>"
    unfolding finalizeDrain_def Let_def us4_def us3_def acc2_def m_def closed_def by simp
  have "dailyTickets us3 = dailyTickets (snd acc)"
    by (simp add: us3_def acc2_def updateDailyDrains_frame recordDiscrepancy_frame)
  then have "ticketsRecordedOnce us3" using assms by (simp add: ticketsRecordedOnce_def)
  then have "ticketsRecordedOnce us4" unfolding us4_def by (rule storeMatchedTicket_once)
  then show ?thesis unfolding res by (simp add: ticketsRecordedOnce_def)
qed

lemma finalizeDrain_wellFormed:
  assumes "wellFormed (snd acc)"
  shows "wellFormed (snd (finalizeDrain c cid lvl base tickets t dk r ad since acc))"
proof -
  define closed where "closed = closeDrainEvent lvl since ad"
  define m where "m = matchTicketToDrain closed tickets"
  define acc2 where "acc2 = recordDiscrepancy c cid t closed m (fst acc, (snd acc)\<lparr>drainEvents := (drainEvents (snd acc))[r := closed]\<rparr>)"
  define us3 where "us3 = updateDailyDrains cid dk closed (snd acc2)"
  define us4 where "us4 = storeMatchedTicket cid dk m us3"
  have res: "snd (finalizeDrain c cid lvl base tickets t dk r ad since acc)
             = us4\<lparr>activeDrains := (activeDrains us4)(cid := None)\<rparr>"
    unfolding finalizeDrain_def Let_def us4_def us3_def acc2_def m_def closed_def by simp
  have a: "activeDrains us4 = activeDrains (snd acc)"
    by (simp add: us4_def us3_def acc2_def storeMatchedTicket_frame updateDailyDrains_frame recordDiscrepancy_frame)
  have l: "length (drainEvents us4) = length (drainEvents (snd acc))"
    by (simp add: us4_def us3_def acc2_def storeMatchedTicket_frame updateDailyDrains_frame recordDiscrepancy_frame)
  show ?thesis unfolding res using assms a l by (simp add: wellFormed_def)
qed

lemma ruleA_once:
  assumes "ticketsRecordedOnce (snd acc)"
  shows "ticketsRecordedOnce (snd (ruleA c cid prev lvl fr base tickets t dk acc))"
  using assms finalizeDrain_once [OF assms]
  by (auto simp add: ruleA_def Let_def startDrain_def continueDrain_def ticketsRecordedOnce_def
        split: option.splits)

lemma ruleA_wellFormed:
  assumes "wellFormed (snd acc)"
  shows "wellFormed (snd (ruleA c cid prev lvl fr base tickets t dk acc))"
proof (cases "detectDrainStart c prev lvl")
  case True
  show ?thesis
  proof (cases "getActiveDrain (snd acc) cid")
    case None
    have "wellFormed (startDrain cid t prev lvl fr (snd acc))"
      using assms by (auto simp add: wellFormed_def startDrain_def Let_def less_Suc_eq)
    then show ?thesis using True None by (simp add: ruleA_def)
  next
    case (Some p)
    obtain r ad where p: "p = (r, ad)" by (cases p)
    have "wellFormed (continueDrain r ad lvl fr (snd acc))"
      using assms by (simp add: wellFormed_def continueDrain_def)
    then show ?thesis using True Some p by (simp add: ruleA_def)
  qed
next
  case False
  show ?thesis
  proof (cases "getActiveDrain (snd acc) cid")
    case None
    then show ?thesis using False assms by (simp add: ruleA_def)
  next
    case (Some p)
    obtain r ad where p: "p = (r, ad)" by (cases p)
    show ?thesis using False Some p assms finalizeDrain_wellFormed [OF assms]
      by (simp add: ruleA_def Let_def)
  qed
qed

lemma processCauldron_skipped: "skipped c \<Longrightarrow> processCauldron hist tickets t state levels dk acc c = acc"
  by (auto simp add: skipped_def truthy_def processCauldron_def split: option.splits)

lemma processCauldron_invariants:
  "(ticketsRecordedOnce (snd acc) \<longrightarrow> ticketsRecordedOnce (snd (processCauldron hist tickets t state levels dk acc c)))
   \<and> (wellFormed (snd acc) \<longrightarrow> wellFormed (snd (processCauldron hist tickets t state levels dk acc c)))"
proof (cases "skipped c")
  case True
  then show ?thesis by (simp add: processCauldron_skipped)
next
  case False
  then obtain cid where Some: "cauldron_id_of c = Some cid" and ne: "cid \<noteq> []" and mv: "max_volume c \<noteq> 0"
    by (auto simp add: skipped_def truthy_def split: option.splits)
  define lvl where "lvl = get_or (levels (levelKey cid)) 0"
  define prev where "prev = get_or (lastLevels state cid) lvl"
  define fr where "fr = calculateFillRate cid hist 60"
  define base where "base = get_or (baselineFillRates (snd acc) cid) fr"
  define acc1 where "acc1 = (fst acc, updateFillRates cid fr (snd acc))"
  define acc2 where "acc2 = ruleA c cid prev lvl fr base tickets t dk acc1"
  define acc3 where "acc3 = (fst acc2 @ caseC c cid tickets t (snd acc2), snd acc2)"
  define acc4 where "acc4 = caseG c cid lvl prev fr t acc3"
  define acc5 where "acc5 = rule6 c cid lvl fr t acc4"
  define acc6 where "acc6 = criticalLevel c cid lvl prev t acc5"
  have res: "snd (processCauldron hist tickets t state levels dk acc c)
             = (snd acc6)\<lparr>lastLevels := (lastLevels (snd acc6))(cid \<mapsto> lvl)\<rparr>"
    unfolding processCauldron_def Let_def acc6_def acc5_def acc4_def acc3_def acc2_def acc1_def
          base_def fr_def prev_def lvl_def
    using Some ne mv by simp
  have t6: "dailyTickets (snd acc6) = dailyTickets (snd acc2)"
    by (simp add: acc6_def acc5_def acc4_def acc3_def criticalLevel_frame rule6_frame caseG_frame)
  have a6: "activeDrains (snd acc6) = activeDrains (snd acc2)"
    by (simp add: acc6_def acc5_def acc4_def acc3_def criticalLevel_frame rule6_frame caseG_frame)
  have d6: "drainEvents (snd acc6) = drainEvents (snd acc2)"
    by (simp add: acc6_def acc5_def acc4_def acc3_def criticalLevel_frame rule6_frame caseG_frame)
  have once: "ticketsRecordedOnce (snd (processCauldron hist tickets t state levels dk acc c))"
    if "ticketsRecordedOnce (snd acc)"
  proof -
    have "ticketsRecordedOnce (snd acc1)"
      using that by (simp add: acc1_def updateFillRates_frame ticketsRecordedOnce_def)
    then have "ticketsRecordedOnce (snd acc2)" unfolding acc2_def by (rule ruleA_once)
    then show ?thesis unfolding res using t6 by (simp add: ticketsRecordedOnce_def)
  qed
  have wf: "wellFormed (snd (processCauldron hist tickets t state levels dk acc c))"
    if "wellFormed (snd acc)"
  proof -
    have "wellFormed (snd acc1)"
      using that by (simp add: acc1_def updateFillRates_frame wellFormed_def)
    then have "wellFormed (snd acc2)" unfolding acc2_def by (rule ruleA_wellFormed)
    then show ?thesis unfolding res using a6 d6 by (simp add: wellFormed_def)
  qed
  show ?thesis using once wf by blast
qed

lemma foldl_processCauldron_invariants:
  "(ticketsRecordedOnce (snd acc) \<longrightarrow>
      ticketsRecordedOnce (snd (foldl (processCauldron hist tickets t state levels dk) acc cs)))
   \<and> (wellFormed (snd acc) \<longrightarrow>
      wellFormed (snd (foldl (processCauldron hist tickets t state levels dk) acc cs)))"
proof (induction cs arbitrary: acc)
  case Nil
  show ?case by simp
next
  case (Cons c cs)
  show ?case
    using Cons.IH [of "processCauldron hist tickets t state levels dk acc c"]
          processCauldron_invariants [of acc hist tickets t state levels dk c]
    by simp
qed

lemma monitorRealTime_state:
  "snd (monitorRealTime tz cs hist tickets t state couriers network)
   = (case nearest_loop t hist None of
        None \<Rightarrow> state
      | Some p \<Rightarrow> snd (foldl (processCauldron hist tickets t state (cauldron_levels p) (isoDate t)) ([], state) cs))"
  by (simp add: monitorRealTime_def Let_def split: option.splits)

lemma foldl_skipped:
  "skipped c \<Longrightarrow>
     foldl (processCauldron hist tickets t state levels dk) acc (cs1 @ c # cs2)
     = foldl (processCauldron hist tickets t state levels dk) acc (cs1 @ cs2)"
  by (simp add: processCauldron_skipped)

lemma caseH_not_audit: "filter (\<lambda>a. alert_type a \<noteq> ''audit'') (caseH tz cs t dk us) = []"
  by (simp add: caseH_def Let_def auditAlert_def)

lemma caseH_cases:
  "caseH tz cs t dk us =
     (if getHours tz t = 23 \<and> 55 \<le> getMinutes tz t
         \<and> fst (foldl (dailyTotals us dk) (0, 0) cs) \<noteq> 0
         \<and> 5 < \<bar>fst (foldl (dailyTotals us dk) (0, 0) cs) - snd (foldl (dailyTotals us dk) (0, 0) cs)\<bar>
                 / fst (foldl (dailyTotals us dk) (0, 0) cs) * 100
      then [auditAlert t (fst (foldl (dailyTotals us dk) (0, 0) cs)) (snd (foldl (dailyTotals us dk) (0, 0) cs))
              (\<bar>fst (foldl (dailyTotals us dk) (0, 0) cs) - snd (foldl (dailyTotals us dk) (0, 0) cs)\<bar>
                 / fst (foldl (dailyTotals us dk) (0, 0) cs) * 100)]
      else [])"
  by (simp add: caseH_def checkDailyDiscrepancy_def Let_def)

subsection \<open>Ticket exclusivity\<close>

text \<open>
  Claim C2, as stated, fails.  Two drains of one vessel, at minutes 1 and 7 of a day, and
  one ticket at minute 0: the run closes both drains, and the matcher returns the one
  ticket for each of them.  No discrepancy is reported for either drain.
\<close>

theorem ticket_exclusivity_counterexample:
  "drainEvents (snd (runTicks utc [vessel 100] two_drains_telemetry [ticket ''T1'' 0 10] None None
                       initializeMonitoringState [0, 60000, 360000, 420000, 720000]))
     = [\<lparr>cauldronId = ''cauldron_001'', timestamp = 60000, levelBefore = 100, levelAfter = 90,
         expectedDrainVolume = 10, duration = 1, refillRate = Some 0, isActive = False\<rparr>,
        \<lparr>cauldronId = ''cauldron_001'', timestamp = 420000, levelBefore = 90, levelAfter = 80,
         expectedDrainVolume = 10, duration = 1, refillRate = Some 0, isActive = False\<rparr>]
   \<and> matchTicketToDrain
        \<lparr>cauldronId = ''cauldron_001'', timestamp = 60000, levelBefore = 100, levelAfter = 90,
         expectedDrainVolume = 10, duration = 1, refillRate = Some 0, isActive = False\<rparr>
        [ticket ''T1'' 0 10] = Some (ticket ''T1'' 0 10)
   \<and> matchTicketToDrain
        \<lparr>cauldronId = ''cauldron_001'', timestamp = 420000, levelBefore = 90, levelAfter = 80,
         expectedDrainVolume = 10, duration = 1, refillRate = Some 0, isActive = False\<rparr>
        [ticket ''T1'' 0 10] = Some (ticket ''T1'' 0 10)
   \<and> map (map alert_type) (fst (runTicks utc [vessel 100] two_drains_telemetry [ticket ''T1'' 0 10] None None
                       initializeMonitoringState [0, 60000, 360000, 420000, 720000]))
     = [[''false_ticket''], [''false_ticket''], [], [], []]
   \<and> dailyDrains (snd (runTicks utc [vessel 100] two_drains_telemetry [ticket ''T1'' 0 10] None None
                       initializeMonitoringState [0, 60000, 360000, 420000, 720000])) ''cauldron_001''
     = Some [0 \<mapsto> 20]"
  by (simp add: tick_eval two_drains_telemetry_def cong: let_weak_cong)

text \<open>
  Claim C2, amended.  The matcher keeps no record of earlier matches: what it returns is a
  ticket of the pool that is eligible for the drain.  What a tick keeps exclusive is the
  record of matched tickets: if every list of a vessel and a day holds each ticket id at
  most once before the tick, it does so after the tick.
\<close>

theorem matched_tickets_recorded_once:
  "(ticketsRecordedOnce state \<longrightarrow>
      ticketsRecordedOnce (snd (monitorRealTime tz cs hist tickets t state couriers network)))
   \<and> (matchTicketToDrain d tickets = Some m \<longrightarrow> m \<in> set tickets \<and> eligible d m)"
proof -
  have inv: "ticketsRecordedOnce (snd (monitorRealTime tz cs hist tickets t state couriers network))"
    if "ticketsRecordedOnce state"
    using that foldl_processCauldron_invariants [of "([], state)" hist tickets t state _ "isoDate t" cs]
    by (simp add: monitorRealTime_state split: option.splits)
  have pool: "m \<in> set tickets \<and> eligible d m" if "matchTicketToDrain d tickets = Some m"
    using that by (auto simp add: matchTicketToDrain_find find_Some_iff)
  show ?thesis using inv pool by blast
qed

text \<open>
  The last tick of the run above.  Before it the second drain is open and the record of
  the day holds the ticket, matched to the first drain.  The tick closes the second drain,
  the matcher returns the same ticket for it, and the record still holds the ticket once.
\<close>

theorem matched_tickets_recorded_once_witness:
  "Option.bind (dailyTickets (snd (runTicks utc [vessel 100] two_drains_telemetry [ticket ''T1'' 0 10] None None
                   initializeMonitoringState [0, 60000, 360000, 420000])) ''cauldron_001'') (\<lambda>m. m 0)
     = Some [ticket ''T1'' 0 10]
   \<and> getActiveDrain (snd (runTicks utc [vessel 100] two_drains_telemetry [ticket ''T1'' 0 10] None None
                   initializeMonitoringState [0, 60000, 360000, 420000])) ''cauldron_001''
     = Some (1, \<lparr>cauldronId = ''cauldron_001'', timestamp = 420000, levelBefore = 90, levelAfter = 80,
                 expectedDrainVolume = 10, duration = 1, refillRate = None, isActive = True\<rparr>)
   \<and> ticketsRecordedOnce (snd (runTicks utc [vessel 100] two_drains_telemetry [ticket ''T1'' 0 10] None None
                   initializeMonitoringState [0, 60000, 360000, 420000]))
   \<and> matchTicketToDrain
        \<lparr>cauldronId = ''cauldron_001'', timestamp = 420000, levelBefore = 90, levelAfter = 80,
         expectedDrainVolume = 10, duration = 1, refillRate = Some 0, isActive = False\<rparr>
        [ticket ''T1'' 0 10] = Some (ticket ''T1'' 0 10)
   \<and> eligible
        \<lparr>cauldronId = ''cauldron_001'', timestamp = 420000, levelBefore = 90, levelAfter = 80,
         expectedDrainVolume = 10, duration = 1, refillRate = Some 0, isActive = False\<rparr>
        (ticket ''T1'' 0 10)
   \<and> drainEvents (snd (monitorRealTime utc [vessel 100] two_drains_telemetry [ticket ''T1'' 0 10] 720000
          (snd (runTicks utc [vessel 100] two_drains_telemetry [ticket ''T1'' 0 10] None None
                   initializeMonitoringState [0, 60000, 360000, 420000])) None None)) ! 1
     = \<lparr>cauldronId = ''cauldron_001'', timestamp = 420000, levelBefore = 90, levelAfter = 80,
         expectedDrainVolume = 10, duration = 1, refillRate = Some 0, isActive = False\<rparr>
   \<and> ticketsRecordedOnce (snd (monitorRealTime utc [vessel 100] two_drains_telemetry [ticket ''T1'' 0 10] 720000
          (snd (runTicks utc [vessel 100] two_drains_telemetry [ticket ''T1'' 0 10] None None
                   initializeMonitoringState [0, 60000, 360000, 420000])) None None))
   \<and> Option.bind (dailyTickets (snd (monitorRealTime utc [vessel 100] two_drains_telemetry [ticket ''T1'' 0 10] 720000
          (snd (runTicks utc [vessel 100] two_drains_telemetry [ticket ''T1'' 0 10] None None
                   initializeMonitoringState [0, 60000, 360000, 420000])) None None)) ''cauldron_001'') (\<lambda>m. m 0)
     = Some [ticket ''T1'' 0 10]"
proof -
  let ?S = "snd (runTicks utc [vessel 100] two_drains_telemetry [ticket ''T1'' 0 10] None None
                   initializeMonitoringState [0, 60000, 360000, 420000])"
  let ?d = "\<lparr>cauldronId = ''cauldron_001'', timestamp = 420000, levelBefore = 90, levelAfter = 80,
         expectedDrainVolume = 10, duration = 1, refillRate = Some 0, isActive = False\<rparr>"
  have dt: "dailyTickets ?S = [''cauldron_001'' \<mapsto> [0 \<mapsto> [ticket ''T1'' 0 10]]]"
    by (simp add: tick_eval two_drains_telemetry_def cong: let_weak_cong)
  have once: "ticketsRecordedOnce ?S"
    unfolding ticketsRecordedOnce_def dt by (auto split: if_splits)
  have act: "getActiveDrain ?S ''cauldron_001''
     = Some (1, \<lparr>cauldronId = ''cauldron_001'', timestamp = 420000, levelBefore = 90, levelAfter = 80,
                 expectedDrainVolume = 10, duration = 1, refillRate = None, isActive = True\<rparr>)"
    by (simp add: tick_eval two_drains_telemetry_def cong: let_weak_cong)
  have m: "matchTicketToDrain ?d [ticket ''T1'' 0 10] = Some (ticket ''T1'' 0 10)"
    by (simp add: matchTicketToDrain_def ticket_matches_def ticket_def isoDate_def abs_diff_def)
  have closed: "drainEvents (snd (monitorRealTime utc [vessel 100] two_drains_telemetry [ticket ''T1'' 0 10] 720000
          ?S None None)) ! 1 = ?d"
    by (simp add: tick_eval two_drains_telemetry_def cong: let_weak_cong)
  have after: "Option.bind (dailyTickets (snd (monitorRealTime utc [vessel 100] two_drains_telemetry
          [ticket ''T1'' 0 10] 720000 ?S None None)) ''cauldron_001'') (\<lambda>m. m 0) = Some [ticket ''T1'' 0 10]"
    by (simp add: tick_eval two_drains_telemetry_def cong: let_weak_cong)
  have before: "Option.bind (dailyTickets ?S ''cauldron_001'') (\<lambda>m. m 0) = Some [ticket ''T1'' 0 10]"
    unfolding dt by simp
  note inst = matched_tickets_recorded_once [of ?S utc "[vessel 100]" two_drains_telemetry
        "[ticket ''T1'' 0 10]" 720000 None None ?d "ticket ''T1'' 0 10"]
  from inst once have once': "ticketsRecordedOnce (snd (monitorRealTime utc [vessel 100] two_drains_telemetry
          [ticket ''T1'' 0 10] 720000 ?S None None))" by blast
  from inst m have el: "eligible ?d (ticket ''T1'' 0 10)" by blast
  show ?thesis
    by (intro conjI before act once m el closed once' after)
qed

subsection \<open>The stabilization window\<close>

text \<open>
  Claim C3 says that a drain is finalized only when five minutes have passed since the
  last tick on which the drop condition held, and that the refill rate divides by the time
  since that tick.  The source measures \<^verbatim>\<open>timeSinceLastDrop\<close> from the timestamp of the
  drain, which is set when the drain starts and is not moved when the drain is extended.
  In this run the drain starts at minute 1 and is extended at minute 6; at minute 7, one
  minute after the last drop, it is finalized, with the refill rate \<open>(43 - 40) / 6\<close>.
\<close>

theorem stabilization_measured_from_drain_start:
  "getActiveDrain (snd (runTicks utc [vessel 100] extended_drain_telemetry [] None None
                          initializeMonitoringState [0, 60000])) ''cauldron_001''
     = Some (0, \<lparr>cauldronId = ''cauldron_001'', timestamp = 60000, levelBefore = 60, levelAfter = 50,
                 expectedDrainVolume = 13, duration = 1, refillRate = None, isActive = True\<rparr>)
   \<and> getActiveDrain (snd (runTicks utc [vessel 100] extended_drain_telemetry [] None None
                          initializeMonitoringState [0, 60000, 360000])) ''cauldron_001''
     = Some (0, \<lparr>cauldronId = ''cauldron_001'', timestamp = 60000, levelBefore = 60, levelAfter = 40,
                 expectedDrainVolume = 26, duration = 2, refillRate = None, isActive = True\<rparr>)
   \<and> drainEvents (snd (runTicks utc [vessel 100] extended_drain_telemetry [] None None
                          initializeMonitoringState [0, 60000, 360000, 420000]))
     = [\<lparr>cauldronId = ''cauldron_001'', timestamp = 60000, levelBefore = 60, levelAfter = 40,
         expectedDrainVolume = 26, duration = 2, refillRate = Some (1 / 2), isActive = False\<rparr>]
   \<and> activeDrains (snd (runTicks utc [vessel 100] extended_drain_telemetry [] None None
                          initializeMonitoringState [0, 60000, 360000, 420000])) ''cauldron_001'' = None"
  by (simp add: tick_eval extended_drain_telemetry_def cong: let_weak_cong)

subsection \<open>Edge-triggered alerts\<close>

text \<open>
  The critical-level alert is raised on the tick of an upward crossing of 80 percent only:
  in this run the level is above the threshold on three ticks and crosses it upward twice.
\<close>

lemma critical_level_per_crossing:
  "map (map alert_type) (fst (runTicks utc [vessel 100] crossing_telemetry [] None None
                                initializeMonitoringState [0, 60000, 120000, 180000, 240000]))
     = [[], [''critical_level''], [], [], [''critical_level'']]"
  by (simp add: tick_eval crossing_telemetry_def cong: let_weak_cong)

text \<open>
  Claim C6 says that the overflow alert, too, is raised at most once while its condition
  persists.  The source raises it on every tick whose time to overflow lies between 9 and
  11 minutes, unless the alert id is acknowledged.  In this run the time to overflow is 11
  and then 10 minutes, nothing is acknowledged, and both ticks raise the alert.
\<close>

theorem overflow_alert_repeats:
  "map (map alert_id) (fst (runTicks utc [vessel 100] filling_telemetry [] None None
                              initializeMonitoringState [0, 60000]))
     = [[''overflow-cauldron_001''], [''overflow-cauldron_001'']]
   \<and> map (map alert_type) (fst (runTicks utc [vessel 100] filling_telemetry [] None None
                              initializeMonitoringState [0, 60000]))
     = [[''overflow''], [''overflow'']]
   \<and> overflowForecasts (snd (runTicks utc [vessel 100] filling_telemetry [] None None
                              initializeMonitoringState [0])) ''cauldron_001'' = Some 11
   \<and> overflowForecasts (snd (runTicks utc [vessel 100] filling_telemetry [] None None
                              initializeMonitoringState [0, 60000])) ''cauldron_001'' = Some 10
   \<and> acknowledgedAlerts (snd (runTicks utc [vessel 100] filling_telemetry [] None None
                              initializeMonitoringState [0, 60000])) = {}"
  by (simp add: tick_eval filling_telemetry_def cong: let_weak_cong)

subsection \<open>The daily audit\<close>

text \<open>
  Claim C8, as stated, fails.  After an unticketed drain of 50 units, the ticks at 23:55
  and at 23:56 of the same day both raise the audit alert.
\<close>

theorem audit_repeats_counterexample:
  "map (map alert_type) (fst (runTicks utc [vessel 100] evening_telemetry [] None None
                                initializeMonitoringState [85200000, 85260000, 85560000, 86100000, 86160000]))
     = [[], [], [''unlogged_event''], [''audit''], [''audit'']]
   \<and> isoDate 86100000 = isoDate 86160000
   \<and> getHours utc 86100000 = 23 \<and> getMinutes utc 86100000 = 55
   \<and> getHours utc 86160000 = 23 \<and> getMinutes utc 86160000 = 56"
  by (simp add: tick_eval evening_telemetry_def cong: let_weak_cong)

text \<open>
  Claim C8, amended.  A tick raises at most one audit alert, a warning.  It raises it
  exactly when there is telemetry, the local time of the tick has the hour 23 and a minute
  of 55 or more, the expected total of the day over the vessels with an identifier is not
  0, and the absolute difference of the expected and the ticketed total, divided by the
  expected total, exceeds 5 percent.  The rollup runs on every such tick.
\<close>

theorem audit_alert_per_tick:
  "filter (\<lambda>a. alert_type a = ''audit'') (fst (monitorRealTime tz cs hist tickets t state couriers network))
     = (let us = snd (monitorRealTime tz cs hist tickets t state couriers network);
            totalExpected = fst (foldl (dailyTotals us (isoDate t)) (0, 0) cs);
            totalTicketed = snd (foldl (dailyTotals us (isoDate t)) (0, 0) cs)
        in if nearest_loop t hist None \<noteq> None \<and> getHours tz t = 23 \<and> 55 \<le> getMinutes tz t
              \<and> totalExpected \<noteq> 0 \<and> 5 < \<bar>totalExpected - totalTicketed\<bar> / totalExpected * 100
           then [auditAlert t totalExpected totalTicketed (\<bar>totalExpected - totalTicketed\<bar> / totalExpected * 100)]
           else [])
   \<and> length (filter (\<lambda>a. alert_type a = ''audit'')
                (fst (monitorRealTime tz cs hist tickets t state couriers network))) \<le> 1
   \<and> alert_severity (auditAlert t e r p) = Warning"
proof -
  have eq: "filter (\<lambda>a. alert_type a = ''audit'') (fst (monitorRealTime tz cs hist tickets t state couriers network))
     = (let us = snd (monitorRealTime tz cs hist tickets t state couriers network);
            totalExpected = fst (foldl (dailyTotals us (isoDate t)) (0, 0) cs);
            totalTicketed = snd (foldl (dailyTotals us (isoDate t)) (0, 0) cs)
        in if nearest_loop t hist None \<noteq> None \<and> getHours tz t = 23 \<and> 55 \<le> getMinutes tz t
              \<and> totalExpected \<noteq> 0 \<and> 5 < \<bar>totalExpected - totalTicketed\<bar> / totalExpected * 100
           then [auditAlert t totalExpected totalTicketed (\<bar>totalExpected - totalTicketed\<bar> / totalExpected * 100)]
           else [])"
    unfolding monitorRealTime_audit Let_def caseH_cases by simp
  have "length (filter (\<lambda>a. alert_type a = ''audit'')
                (fst (monitorRealTime tz cs hist tickets t state couriers network))) \<le> 1"
    unfolding eq Let_def by simp
  then show ?thesis using eq by (simp add: auditAlert_def)
qed

text \<open>
  An expected total of 100 and a ticketed total of 90: one audit alert with 10 percent at
  23:55, none at 23:46.
\<close>

theorem audit_alert_per_tick_witness:
  "filter (\<lambda>a. alert_type a = ''audit'')
     (fst (monitorRealTime utc [vessel 100] evening_telemetry [] 86100000 audited_state None None))
     = [auditAlert 86100000 100 90 10]
   \<and> filter (\<lambda>a. alert_type a = ''audit'')
     (fst (monitorRealTime utc [vessel 100] evening_telemetry [] 85560000 audited_state None None))
     = []"
proof -
  have s1: "snd (monitorRealTime utc [vessel 100] evening_telemetry [] 86100000 audited_state None None)
            = audited_state\<lparr>fillRates := [''cauldron_001'' \<mapsto> 0], lastLevels := [''cauldron_001'' \<mapsto> 50],
                 lastStableTime := [''cauldron_001'' \<mapsto> 86100000]\<rparr>"
    by (simp add: tick_eval evening_telemetry_def audited_state_def cong: let_weak_cong)
  have n1: "nearest_loop 86100000 evening_telemetry None \<noteq> None"
    by (simp add: evening_telemetry_def abs_diff_def sample_def cong: let_weak_cong)
  have h1: "getHours utc 86100000 = 23 \<and> getMinutes utc 86100000 = 55 \<and> isoDate 86100000 = 0"
    by (simp add: getHours_def getMinutes_def utc_def isoDate_def)
  have h2: "getHours utc 85560000 = 23 \<and> getMinutes utc 85560000 = 46"
    by (simp add: getHours_def getMinutes_def utc_def isoDate_def)
  have t1: "dailyTotals (audited_state\<lparr>fillRates := [''cauldron_001'' \<mapsto> 0], lastLevels := [''cauldron_001'' \<mapsto> 50],
                 lastStableTime := [''cauldron_001'' \<mapsto> 86100000]\<rparr>) 0 (0, 0) (vessel 100) = (100, 90)"
    by (simp add: dailyTotals_def audited_state_def initializeMonitoringState_def vessel_def ticket_def get_or_def)
  show ?thesis
    using audit_alert_per_tick [of utc "[vessel 100]" evening_telemetry "[]" 86100000 audited_state None None]
          audit_alert_per_tick [of utc "[vessel 100]" evening_telemetry "[]" 85560000 audited_state None None]
          n1 h1 h2
    by (simp add: s1 t1 Let_def)
qed

subsection \<open>Vessels without a usable capacity\<close>

text \<open>
  When every date parses or is missing, the tick on ticket texts returns what the tick on
  parsed dates returns.
\<close>

lemma processCauldronRaw_skipped:
  "skipped c \<Longrightarrow> processCauldronRaw hist tickets t state levels dk acc c = Inr acc"
  by (auto simp add: skipped_def truthy_def processCauldronRaw_def split: option.splits)

lemma forEachCauldron_skip:
  "(\<And>a. body a c = Inr a) \<Longrightarrow>
     forEachCauldron body acc (cs1 @ c # cs2) = forEachCauldron body acc (cs1 @ cs2)"
  by (induction cs1 arbitrary: acc) (auto split: sum.splits)

lemma dailyTotals_nameless: "\<not> truthy (cauldron_id_of c) \<Longrightarrow> dailyTotals us dk totals c = totals"
  by (auto simp add: dailyTotals_def truthy_def split: option.splits)

lemma caseH_nameless:
  "\<not> truthy (cauldron_id_of c) \<Longrightarrow> caseH tz (cs1 @ c # cs2) t dk us = caseH tz (cs1 @ cs2) t dk us"
  by (simp add: caseH_def dailyTotals_nameless)

lemma parsed_date_None: "text_date t \<noteq> BadDate \<Longrightarrow> (date (parsed t) = None) = (text_date t = NoDate)"
  by (cases "text_date t") (simp_all add: parsed_def)

lemma parsed_fields:
  "cauldron_id (parsed t) = text_cauldron_id t" "courier_id (parsed t) = text_courier_id t"
  by (simp_all add: parsed_def)

lemma matchingTicketsRaw_parsed:
  "\<forall>t \<in> set ts. text_date t \<noteq> BadDate \<Longrightarrow>
     matchingTicketsRaw d ts = Inr (filter (ticket_matches d) (map parsed ts))"
proof (induction ts)
  case Nil
  show ?case by simp
next
  case (Cons t ts)
  then have ih: "matchingTicketsRaw d ts = Inr (filter (ticket_matches d) (map parsed ts))" by simp
  from Cons.prems have nb: "text_date t \<noteq> BadDate" by simp
  show ?case
  proof (cases "text_date t")
    case NoDate
    then have "\<not> ticket_matches d (parsed t)" by (simp add: ticket_matches_def parsed_def)
    then show ?thesis using NoDate ih by simp
  next
    case BadDate
    then show ?thesis using nb by simp
  next
    case (GoodDate ms)
    then show ?thesis using ih by simp
  qed
qed

lemma matchTicketToDrainRaw_parsed:
  "\<forall>t \<in> set ts. text_date t \<noteq> BadDate \<Longrightarrow>
     matchTicketToDrainRaw d ts = Inr (matchTicketToDrain d (map parsed ts))"
  by (simp add: matchTicketToDrainRaw_def matchTicketToDrain_def matchingTicketsRaw_parsed Let_def)

lemma falseTicketLoop_parsed:
  "\<forall>t \<in> set ts. text_date t \<noteq> BadDate \<Longrightarrow>
     falseTicketLoop c cid now recent ts alerts
       = Inr (alerts @ map (falseTicketAlert c cid now) (filter (\<lambda>t. checkFalseTicket t recent) (map parsed ts)))"
proof (induction ts arbitrary: alerts)
  case Nil
  show ?case by simp
next
  case (Cons t ts)
  from Cons.prems have nb: "text_date t \<noteq> BadDate" and rest: "\<forall>t \<in> set ts. text_date t \<noteq> BadDate" by simp_all
  have chk: "checkFalseTicketRaw t recent = Inr (checkFalseTicket (parsed t) recent)"
    using nb by (cases "text_date t") (simp_all add: checkFalseTicketRaw_def)
  show ?case by (simp add: chk Cons.IH [OF rest])
qed

lemma filter_parsed_cauldron:
  "\<forall>t \<in> set ts. text_date t \<noteq> BadDate \<Longrightarrow>
     map parsed (filter (\<lambda>t. text_cauldron_id t = Some cid \<and> text_date t \<noteq> NoDate) ts)
       = filter (\<lambda>t. cauldron_id t = Some cid \<and> date t \<noteq> None) (map parsed ts)"
  by (induction ts) (auto simp add: parsed_date_None parsed_fields)

lemma filter_parsed_courier:
  "\<forall>t \<in> set ts. text_date t \<noteq> BadDate \<Longrightarrow>
     map parsed (filter (\<lambda>t. text_courier_id t = Some k \<and> text_date t \<noteq> NoDate) ts)
       = filter (\<lambda>t. courier_id t = Some k \<and> date t \<noteq> None) (map parsed ts)"
  by (induction ts) (auto simp add: parsed_date_None parsed_fields)

lemma caseCRaw_parsed:
  assumes "\<forall>t \<in> set ts. text_date t \<noteq> BadDate"
  shows "caseCRaw c cid ts now us = Inr (caseC c cid (map parsed ts) now us)"
proof -
  have sub: "\<forall>t \<in> set (filter (\<lambda>t. text_cauldron_id t = Some cid \<and> text_date t \<noteq> NoDate) ts). text_date t \<noteq> BadDate"
    using assms by simp
  show ?thesis
    unfolding caseCRaw_def caseC_def Let_def falseTicketLoop_parsed [OF sub]
      filter_parsed_cauldron [OF assms]
    by simp
qed

lemma finalizeDrain_assessClosedDrain:
  "finalizeDrain c cid lvl base tickets now dk r ad since acc
     = assessClosedDrain c cid base now dk r (closeDrainEvent lvl since ad)
         (matchTicketToDrain (closeDrainEvent lvl since ad) tickets) acc"
  by (simp add: finalizeDrain_def assessClosedDrain_def Let_def)

lemma finalizeDrainRaw_parsed:
  "\<forall>t \<in> set ts. text_date t \<noteq> BadDate \<Longrightarrow>
     finalizeDrainRaw c cid lvl base ts now dk r ad since acc
       = Inr (finalizeDrain c cid lvl base (map parsed ts) now dk r ad since acc)"
  by (simp add: finalizeDrainRaw_def finalizeDrain_assessClosedDrain matchTicketToDrainRaw_parsed Let_def)

lemma ruleARaw_parsed:
  "\<forall>t \<in> set ts. text_date t \<noteq> BadDate \<Longrightarrow>
     ruleARaw c cid prev lvl fr base ts now dk acc = Inr (ruleA c cid prev lvl fr base (map parsed ts) now dk acc)"
  by (simp add: ruleARaw_def ruleA_def finalizeDrainRaw_parsed Let_def split: option.splits)

lemma processCauldron_afterFalseTickets:
  "cauldron_id_of c = Some cid \<Longrightarrow> cid \<noteq> [] \<Longrightarrow> max_volume c \<noteq> 0 \<Longrightarrow>
     processCauldron hist tickets now state levels dk acc c
       = afterFalseTickets c cid (get_or (levels (levelKey cid)) 0)
           (get_or (lastLevels state cid) (get_or (levels (levelKey cid)) 0))
           (calculateFillRate cid hist 60) now
           (fst (ruleA c cid (get_or (lastLevels state cid) (get_or (levels (levelKey cid)) 0))
                  (get_or (levels (levelKey cid)) 0) (calculateFillRate cid hist 60)
                  (get_or (baselineFillRates (snd acc) cid) (calculateFillRate cid hist 60)) tickets now dk
                  (fst acc, updateFillRates cid (calculateFillRate cid hist 60) (snd acc)))
              @ caseC c cid tickets now
                  (snd (ruleA c cid (get_or (lastLevels state cid) (get_or (levels (levelKey cid)) 0))
                  (get_or (levels (levelKey cid)) 0) (calculateFillRate cid hist 60)
                  (get_or (baselineFillRates (snd acc) cid) (calculateFillRate cid hist 60)) tickets now dk
                  (fst acc, updateFillRates cid (calculateFillRate cid hist 60) (snd acc)))),
            snd (ruleA c cid (get_or (lastLevels state cid) (get_or (levels (levelKey cid)) 0))
                  (get_or (levels (levelKey cid)) 0) (calculateFillRate cid hist 60)
                  (get_or (baselineFillRates (snd acc) cid) (calculateFillRate cid hist 60)) tickets now dk
                  (fst acc, updateFillRates cid (calculateFillRate cid hist 60) (snd acc))))"
  unfolding processCauldron_def afterFalseTickets_def Let_def by simp

lemma processCauldronRaw_parsed:
  assumes "\<forall>t \<in> set ts. text_date t \<noteq> BadDate"
  shows "processCauldronRaw hist ts now state levels dk acc c
           = Inr (processCauldron hist (map parsed ts) now state levels dk acc c)"
proof (cases "skipped c")
  case True
  then show ?thesis by (simp add: processCauldronRaw_skipped processCauldron_skipped)
next
  case False
  then obtain cid where c: "cauldron_id_of c = Some cid" "cid \<noteq> []" "max_volume c \<noteq> 0"
    by (auto simp add: skipped_def truthy_def split: option.splits)
  show ?thesis
    unfolding processCauldron_afterFalseTickets [OF c]
    unfolding processCauldronRaw_def Let_def ruleARaw_parsed [OF assms] caseCRaw_parsed [OF assms]
    using c by simp
qed

lemma forEachCauldron_pure: "forEachCauldron (\<lambda>a c. Inr (f a c)) acc cs = Inr (foldl f acc cs)"
  by (induction cs arbitrary: acc) simp_all

lemma checkDeliveryDelayRaw_parsed:
  "text_date t \<noteq> BadDate \<Longrightarrow> checkDeliveryDelayRaw t nw now = checkDeliveryDelay (parsed t) nw now"
  by (cases "text_date t") (simp_all add: checkDeliveryDelayRaw_def)

lemma courierAlertsRaw_parsed:
  assumes "\<forall>t \<in> set ts. text_date t \<noteq> BadDate"
  shows "courierAlertsRaw ts nw now = courierAlerts (map parsed ts) nw now"
proof
  fix k
  show "courierAlertsRaw ts nw now k = courierAlerts (map parsed ts) nw now k"
  proof (cases "c_courier_id k")
    case None
    then show ?thesis by (simp add: courierAlertsRaw_def courierAlerts_def)
  next
    case (Some cid)
    let ?F = "\<lambda>tk. case checkDeliveryDelayRaw tk (Some nw) now of None \<Rightarrow> []
            | Some dc \<Rightarrow> if isDelayed dc then [deliveryDelayAlert cid now (parsed tk) (delayMinutes dc)] else []"
    let ?G = "\<lambda>tk. case checkDeliveryDelay tk (Some nw) now of None \<Rightarrow> []
            | Some dc \<Rightarrow> if isDelayed dc then [deliveryDelayAlert cid now tk (delayMinutes dc)] else []"
    let ?sel = "filter (\<lambda>t. text_courier_id t = Some cid \<and> text_date t \<noteq> NoDate) ts"
    have "map ?F ?sel = map (\<lambda>tk. ?G (parsed tk)) ?sel"
      using assms by (intro map_cong refl) (simp add: checkDeliveryDelayRaw_parsed)
    also have "\<dots> = map ?G (map parsed ?sel)" by (simp add: comp_def)
    also have "\<dots> = map ?G (filter (\<lambda>t. courier_id t = Some cid \<and> date t \<noteq> None) (map parsed ts))"
      unfolding filter_parsed_courier [OF assms] ..
    finally have eq: "map ?F ?sel
        = map ?G (filter (\<lambda>t. courier_id t = Some cid \<and> date t \<noteq> None) (map parsed ts))" .
    show ?thesis
      unfolding courierAlertsRaw_def courierAlerts_def Let_def Some option.case eq ..
  qed
qed

lemma deliveryIntegrityRaw_parsed:
  "\<forall>t \<in> set ts. text_date t \<noteq> BadDate \<Longrightarrow>
     deliveryIntegrityRaw ts couriers network now = deliveryIntegrity (map parsed ts) couriers network now"
  by (simp add: deliveryIntegrityRaw_def deliveryIntegrity_def courierAlertsRaw_parsed split: option.splits)

lemma monitorRealTimeRaw_parsed:
  assumes "\<forall>t \<in> set ts. text_date t \<noteq> BadDate"
  shows "monitorRealTimeRaw tz cs hist ts now state couriers network
           = Inr (monitorRealTime tz cs hist (map parsed ts) now state couriers network)"
proof -
  have body: "\<And>levels dk. processCauldronRaw hist ts now state levels dk
                = (\<lambda>a c. Inr (processCauldron hist (map parsed ts) now state levels dk a c))"
    by (intro ext) (rule processCauldronRaw_parsed [OF assms])
  show ?thesis
    unfolding monitorRealTimeRaw_def monitorRealTime_def Let_def body forEachCauldron_pure
      deliveryIntegrityRaw_parsed [OF assms]
    by (simp split: option.splits)
qed

text \<open>The equations that evaluate a tick on ticket texts.\<close>

lemmas raw_eval =
  monitorRealTimeRaw_def processCauldronRaw_def ruleARaw_def finalizeDrainRaw_def assessClosedDrain_def
  matchTicketToDrainRaw_def checkFalseTicketRaw_def caseCRaw_def afterFalseTickets_def
  deliveryIntegrityRaw_def parsed_def ticket_text_def vessel_002_def nameless_vessel_def

text \<open>
  Claim C9, as stated, fails, in three ways.  The loop skips a vessel whose
  \<^verbatim>\<open>max_volume\<close> is falsy, and a negative capacity is not: for a vessel of capacity -5
  the tick records the level and the fill rate, a drop of one unit opens a drain, and its
  finalization raises an alert for the vessel.  The daily audit sums the recorded totals
  of every vessel with an identifier: a vessel of capacity 0 with recorded totals decides
  whether the audit alert is raised.  And a tick over a fleet with a vessel of capacity 0
  fails with a \<^verbatim>\<open>RangeError\<close> when a vessel that is not skipped has a ticket whose date
  does not parse.
\<close>

theorem negative_capacity_counterexample:
  "max_volume (vessel (- 5)) \<le> 0
   \<and> map (map alert_type) (fst (runTicks utc [vessel (- 5)] small_drop_telemetry [] None None
                                initializeMonitoringState [0, 60000, 360000]))
     = [[], [], [''unlogged_event'']]
   \<and> map (map alert_cauldronId) (fst (runTicks utc [vessel (- 5)] small_drop_telemetry [] None None
                                initializeMonitoringState [0, 60000, 360000]))
     = [[], [], [Some ''cauldron_001'']]
   \<and> lastLevels (snd (runTicks utc [vessel (- 5)] small_drop_telemetry [] None None
                                initializeMonitoringState [0])) ''cauldron_001'' = Some 50
   \<and> fillRates (snd (runTicks utc [vessel (- 5)] small_drop_telemetry [] None None
                                initializeMonitoringState [0])) ''cauldron_001'' = Some 0
   \<and> max_volume (vessel 0) \<le> 0
   \<and> map alert_type (fst (monitorRealTime utc [vessel 0] evening_telemetry [] 86100000 audited_state None None))
     = [''audit'']
   \<and> map alert_type (fst (monitorRealTime utc [] evening_telemetry [] 86100000 audited_state None None))
     = []
   \<and> monitorRealTimeRaw utc [vessel 0, vessel_002 100] small_drop_telemetry
        [ticket_text ''T9'' ''cauldron_002'' BadDate 5] 0 initializeMonitoringState None None
     = Inl RangeError"
  by (simp add: tick_eval raw_eval small_drop_telemetry_def evening_telemetry_def audited_state_def
        cong: let_weak_cong)

text \<open>
  Claim C9, amended.  A vessel whose identifier is missing or empty, or whose capacity
  is 0, is skipped: the body of the loop returns the alerts and the state it was given.  A
  tick with the vessel fails exactly as the tick without it, and otherwise returns the
  same state and the same alerts other than the audit alert; if the identifier of the
  vessel is missing or empty, the two ticks are the same altogether.  A tick whose
  tickets all have a date that parses or no date returns alerts and a state.
\<close>

theorem skipped_vessel_untouched:
  "(skipped c \<longrightarrow>
      processCauldronRaw hist tickets t state levels dateKey acc c = Inr acc
      \<and> map_sum id (\<lambda>r. (filter (\<lambda>a. alert_type a \<noteq> ''audit'') (fst r), snd r))
            (monitorRealTimeRaw tz (cs1 @ c # cs2) hist tickets t state couriers network)
          = map_sum id (\<lambda>r. (filter (\<lambda>a. alert_type a \<noteq> ''audit'') (fst r), snd r))
            (monitorRealTimeRaw tz (cs1 @ cs2) hist tickets t state couriers network))
   \<and> (\<not> truthy (cauldron_id_of c) \<longrightarrow>
        monitorRealTimeRaw tz (cs1 @ c # cs2) hist tickets t state couriers network
          = monitorRealTimeRaw tz (cs1 @ cs2) hist tickets t state couriers network)
   \<and> ((\<forall>tk \<in> set tickets. text_date tk \<noteq> BadDate) \<longrightarrow>
        monitorRealTimeRaw tz cs hist tickets t state couriers network
          = Inr (monitorRealTime tz cs hist (map parsed tickets) t state couriers network))"
proof -
  have loop: "forEachCauldron (processCauldronRaw hist tickets t state lv dk) a (cs1 @ c # cs2)
              = forEachCauldron (processCauldronRaw hist tickets t state lv dk) a (cs1 @ cs2)"
    if "skipped c" for lv dk a
    by (rule forEachCauldron_skip) (rule processCauldronRaw_skipped [OF that])
  have part: "map_sum id (\<lambda>r. (filter (\<lambda>a. alert_type a \<noteq> ''audit'') (fst r), snd r))
            (monitorRealTimeRaw tz (cs1 @ c # cs2) hist tickets t state couriers network)
          = map_sum id (\<lambda>r. (filter (\<lambda>a. alert_type a \<noteq> ''audit'') (fst r), snd r))
            (monitorRealTimeRaw tz (cs1 @ cs2) hist tickets t state couriers network)"
    if "skipped c"
    unfolding monitorRealTimeRaw_def Let_def loop [OF that]
    by (simp add: caseH_not_audit split: option.splits sum.splits)
  have whole: "monitorRealTimeRaw tz (cs1 @ c # cs2) hist tickets t state couriers network
          = monitorRealTimeRaw tz (cs1 @ cs2) hist tickets t state couriers network"
    if "\<not> truthy (cauldron_id_of c)"
  proof -
    from that have sk: "skipped c" by (simp add: skipped_def)
    show ?thesis
      unfolding monitorRealTimeRaw_def Let_def loop [OF sk] caseH_nameless [OF that] by (rule refl)
  qed
  show ?thesis
    using part whole processCauldronRaw_skipped monitorRealTimeRaw_parsed by blast
qed

text \<open>
  The tick that closes an overreported drain of the first vessel, after two ticks of the
  run with two drains.  A second vessel of capacity 0, which has a ticket whose date does
  not parse, changes neither the alert nor the closed drain, and the tick does not fail;
  nor does a vessel without identifier.
\<close>

theorem skipped_vessel_untouched_witness:
  "skipped (vessel_002 0)
   \<and> map_sum id (\<lambda>r. (map alert_type (filter (\<lambda>a. alert_type a \<noteq> ''audit'') (fst r)), drainEvents (snd r)))
       (monitorRealTimeRaw utc [vessel_002 0, vessel 100] two_drains_telemetry
          [ticket_text ''T9'' ''cauldron_002'' BadDate 5, ticket_text ''T1'' ''cauldron_001'' (GoodDate 0) 20]
          360000
          (snd (runTicks utc [vessel 100] two_drains_telemetry [ticket ''T1'' 0 20] None None
                  initializeMonitoringState [0, 60000]))
          None None)
     = Inr ([''overreporting''],
            [\<lparr>cauldronId = ''cauldron_001'', timestamp = 60000, levelBefore = 100, levelAfter = 90,
              expectedDrainVolume = 10, duration = 1, refillRate = Some 0, isActive = False\<rparr>])
   \<and> \<not> truthy (cauldron_id_of (nameless_vessel 100))
   \<and> map_sum id (\<lambda>r. (map alert_type (fst r), drainEvents (snd r)))
       (monitorRealTimeRaw utc [nameless_vessel 100, vessel 100] two_drains_telemetry
          [ticket_text ''T1'' ''cauldron_001'' (GoodDate 0) 20]
          360000
          (snd (runTicks utc [vessel 100] two_drains_telemetry [ticket ''T1'' 0 20] None None
                  initializeMonitoringState [0, 60000]))
          None None)
     = Inr ([''overreporting''],
            [\<lparr>cauldronId = ''cauldron_001'', timestamp = 60000, levelBefore = 100, levelAfter = 90,
              expectedDrainVolume = 10, duration = 1, refillRate = Some 0, isActive = False\<rparr>])"
proof -
  let ?S = "snd (runTicks utc [vessel 100] two_drains_telemetry [ticket ''T1'' 0 20] None None
                  initializeMonitoringState [0, 60000])"
  let ?pool = "[ticket_text ''T9'' ''cauldron_002'' BadDate 5, ticket_text ''T1'' ''cauldron_001'' (GoodDate 0) 20]"
  let ?good = "[ticket_text ''T1'' ''cauldron_001'' (GoodDate 0) 20]"
  let ?d = "\<lparr>cauldronId = ''cauldron_001'', timestamp = 60000, levelBefore = 100, levelAfter = 90,
              expectedDrainVolume = 10, duration = 1, refillRate = Some 0, isActive = False\<rparr>"
  let ?h = "\<lambda>r :: Alert list \<times> MonitoringState. (map alert_type (fst r), drainEvents (snd r))"
  let ?g = "\<lambda>r :: Alert list \<times> MonitoringState. (filter (\<lambda>a. alert_type a \<noteq> ''audit'') (fst r), snd r)"
  have sk: "skipped (vessel_002 0)" by (simp add: skipped_def vessel_002_def)
  have nl: "\<not> truthy (cauldron_id_of (nameless_vessel 100))" by (simp add: truthy_def nameless_vessel_def)
  have nb: "\<forall>tk \<in> set ?good. text_date tk \<noteq> BadDate" by (simp add: ticket_text_def)
  have b1: "map_sum id ?h (map_sum id ?g
              (monitorRealTimeRaw utc ([] @ [vessel 100]) two_drains_telemetry ?pool 360000 ?S None None))
            = Inr ([''overreporting''], [?d])"
    by (simp add: tick_eval raw_eval two_drains_telemetry_def cong: let_weak_cong)
  have b2: "map_sum id ?h (Inr (monitorRealTime utc [vessel 100] two_drains_telemetry (map parsed ?good)
                                  360000 ?S None None))
            = Inr ([''overreporting''], [?d])"
    by (simp add: tick_eval raw_eval two_drains_telemetry_def cong: let_weak_cong)
  note i1 = skipped_vessel_untouched [of "vessel_002 0" two_drains_telemetry ?pool 360000 ?S Map.empty 0
              "([], ?S)" utc "[]" "[vessel 100]" None None "[]"]
  note i2 = skipped_vessel_untouched [of "nameless_vessel 100" two_drains_telemetry ?good 360000 ?S Map.empty 0
              "([], ?S)" utc "[]" "[vessel 100]" None None "[vessel 100]"]
  from i1 sk have e1: "map_sum id ?g
              (monitorRealTimeRaw utc ([] @ vessel_002 0 # [vessel 100]) two_drains_telemetry ?pool 360000 ?S None None)
            = map_sum id ?g
              (monitorRealTimeRaw utc ([] @ [vessel 100]) two_drains_telemetry ?pool 360000 ?S None None)"
    by blast
  from i2 nl have e2: "monitorRealTimeRaw utc ([] @ nameless_vessel 100 # [vessel 100]) two_drains_telemetry ?good
                         360000 ?S None None
            = monitorRealTimeRaw utc ([] @ [vessel 100]) two_drains_telemetry ?good 360000 ?S None None"
    by blast
  from i2 nb have e3: "monitorRealTimeRaw utc [vessel 100] two_drains_telemetry ?good 360000 ?S None None
            = Inr (monitorRealTime utc [vessel 100] two_drains_telemetry (map parsed ?good) 360000 ?S None None)"
    by blast
  have c1: "map_sum id (\<lambda>r. (map alert_type (filter (\<lambda>a. alert_type a \<noteq> ''audit'') (fst r)), drainEvents (snd r)))
       (monitorRealTimeRaw utc [vessel_002 0, vessel 100] two_drains_telemetry ?pool 360000 ?S None None)
     = Inr ([''overreporting''], [?d])"
  proof -
    have "map_sum id (\<lambda>r. (map alert_type (filter (\<lambda>a. alert_type a \<noteq> ''audit'') (fst r)), drainEvents (snd r)))
       (monitorRealTimeRaw utc [vessel_002 0, vessel 100] two_drains_telemetry ?pool 360000 ?S None None)
      = map_sum id ?h (map_sum id ?g
          (monitorRealTimeRaw utc ([] @ vessel_002 0 # [vessel 100]) two_drains_telemetry ?pool 360000 ?S None None))"
      by (simp add: sum.map_comp comp_def id_def)
    also have "\<dots> = Inr ([''overreporting''], [?d])" unfolding e1 by (rule b1)
    finally show ?thesis .
  qed
  have c2: "map_sum id ?h
       (monitorRealTimeRaw utc [nameless_vessel 100, vessel 100] two_drains_telemetry ?good 360000 ?S None None)
     = Inr ([''overreporting''], [?d])"
  proof -
    have "monitorRealTimeRaw utc [nameless_vessel 100, vessel 100] two_drains_telemetry ?good 360000 ?S None None
          = Inr (monitorRealTime utc [vessel 100] two_drains_telemetry (map parsed ?good) 360000 ?S None None)"
      using e2 e3 by (simp only: append_Nil)
    then show ?thesis by (simp only: b2)
  qed
  show ?thesis by (intro conjI sk c1 nl c2)
qed

subsection \<open>A day without expected volume\<close>

text \<open>
  Claim C10.  For an expected total of 0 the daily check returns no excess and 0 percent,
  whatever the ticketed total; so a tick whose expected total of the day is 0 raises no
  audit alert.
\<close>

theorem zero_expected_never_audited:
  "checkDailyDiscrepancy 0 totalTicketed threshold = \<lparr>exceedsThreshold = False, discrepancyPercent = 0\<rparr>
   \<and> (fst (foldl (dailyTotals (snd (monitorRealTime tz cs hist tickets t state couriers network)) (isoDate t))
              (0, 0) cs) = 0 \<longrightarrow>
        filter (\<lambda>a. alert_type a = ''audit'')
          (fst (monitorRealTime tz cs hist tickets t state couriers network)) = [])"
  by (simp add: checkDailyDiscrepancy_def monitorRealTime_audit caseH_def Let_def)

text \<open>At 23:55, with no expected volume and a ticketed total of 90, no audit alert is raised.\<close>

theorem zero_expected_never_audited_witness:
  "fst (foldl (dailyTotals (snd (monitorRealTime utc [vessel 100] evening_telemetry [] 86100000
                                   (audited_state\<lparr>dailyDrains := Map.empty\<rparr>) None None)) (isoDate 86100000))
              (0, 0) [vessel 100]) = 0
   \<and> snd (foldl (dailyTotals (snd (monitorRealTime utc [vessel 100] evening_telemetry [] 86100000
                                   (audited_state\<lparr>dailyDrains := Map.empty\<rparr>) None None)) (isoDate 86100000))
              (0, 0) [vessel 100]) = 90
   \<and> getHours utc 86100000 = 23 \<and> getMinutes utc 86100000 = 55
   \<and> filter (\<lambda>a. alert_type a = ''audit'')
        (fst (monitorRealTime utc [vessel 100] evening_telemetry [] 86100000
                (audited_state\<lparr>dailyDrains := Map.empty\<rparr>) None None)) = []"
proof -
  have z: "dailyTotals (snd (monitorRealTime utc [vessel 100] evening_telemetry [] 86100000
                                   (audited_state\<lparr>dailyDrains := Map.empty\<rparr>) None None)) (isoDate 86100000)
              (0, 0) (vessel 100) = (0, 90)"
    by (simp add: tick_eval evening_telemetry_def audited_state_def cong: let_weak_cong)
  have h: "getHours utc 86100000 = 23 \<and> getMinutes utc 86100000 = 55"
    by (simp add: getHours_def getMinutes_def utc_def)
  show ?thesis
    using zero_expected_never_audited [of 90 5 utc "[vessel 100]" evening_telemetry "[]" 86100000
            "audited_state\<lparr>dailyDrains := Map.empty\<rparr>" None None] h
    by (simp add: z)
qed

end
